theory Spec2Isabelle
  imports Complex_Main "HOL-Library.List_Lexorder"
begin

section \<open>The ATS score engine: \<^verbatim>\<open>backend/ats_score_engine.py\<close>\<close>

text \<open>
  The module scores a resume against job keywords (\<^verbatim>\<open>ats_score\<close>, a regex and string
  pipeline) and against a job description (\<^verbatim>\<open>calculate_ats_score\<close>, embeddings
  with a word-overlap fallback, followed by the insight generator).

  Conventions of the embedding.
  \<^item> A Python \<^verbatim>\<open>str\<close> is a list of code points (\<open>ustr\<close>, natural numbers), so that
    \<^verbatim>\<open>len\<close>, \<^verbatim>\<open>find\<close> and slicing count what Python counts and the bullet U+2022
    is one character. \<open>U ''abc''\<close> is the literal \<^verbatim>\<open>"abc"\<close>. White space follows
    \<^verbatim>\<open>str.isspace\<close> in full; case mapping, \<^verbatim>\<open>\w\<close> and \<^verbatim>\<open>\d\<close> follow Python on
    U+0000..U+00FF, and code points above that range are taken to be caseless symbols.
  \<^item> A Python \<^verbatim>\<open>float\<close> is a real number: rounding errors of the binary format are
    not modelled.
  \<^item> An exception is a value of \<open>exn\<close>; a function that can raise returns
    \<open>exn + 'a\<close> with \<open>Inl\<close> for the raise. Every constructor of \<open>exn\<close> stands for a
    subclass of Python's \<^verbatim>\<open>Exception\<close>, which is what the module's handlers catch.
  \<^item> Calls of \<^verbatim>\<open>logger\<close> have no effect on any result and are left out.
  \<^item> What the module takes from other packages is a parameter: the loader
    \<^verbatim>\<open>get_sentence_transformer\<close>, the model's \<^verbatim>\<open>encode\<close>, sklearn's
    \<^verbatim>\<open>cosine_similarity\<close>, difflib's \<^verbatim>\<open>SequenceMatcher.ratio\<close> and the order in which
    the interpreter enumerates a \<^verbatim>\<open>set\<close>.
\<close>

subsection \<open>Strings\<close>

type_synonym ustr = "nat list"

definition U :: "string \<Rightarrow> ustr" where
  "U s = map of_char s"

definition is_upper_cp :: "nat \<Rightarrow> bool" where
  "is_upper_cp c = ((65 \<le> c \<and> c \<le> 90) \<or> (192 \<le> c \<and> c \<le> 222 \<and> c \<noteq> 215))"

definition is_lower_cp :: "nat \<Rightarrow> bool" where
  "is_lower_cp c = ((97 \<le> c \<and> c \<le> 122) \<or> (224 \<le> c \<and> c \<le> 254 \<and> c \<noteq> 247))"

definition lower_cp :: "nat \<Rightarrow> nat" where
  "lower_cp c = (if is_upper_cp c then c + 32 else c)"

definition upper_cp :: "nat \<Rightarrow> nat" where
  "upper_cp c = (if is_lower_cp c then c - 32 else c)"

text \<open>\<^verbatim>\<open>s.lower()\<close>. Python also maps the cased letters above U+00FF (Greek, Cyrillic and
  others) to lower case; this function leaves them as they are, so it is \<^verbatim>\<open>str.lower\<close>
  on texts of code points up to U+00FF only.\<close>

definition lower :: "ustr \<Rightarrow> ustr" where
  "lower s = map lower_cp s"

text \<open>\<^verbatim>\<open>str.isspace\<close> of one character (the table of CPython's \<^verbatim>\<open>_PyUnicode_IsWhitespace\<close>).\<close>

definition isspace :: "nat \<Rightarrow> bool" where
  "isspace c = ((9 \<le> c \<and> c \<le> 13) \<or> (28 \<le> c \<and> c \<le> 32) \<or> c = 133 \<or> c = 160
     \<or> c = 5760 \<or> (8192 \<le> c \<and> c \<le> 8202) \<or> c = 8232 \<or> c = 8233 \<or> c = 8239
     \<or> c = 8287 \<or> c = 12288)"

text \<open>\<^verbatim>\<open>s.split()\<close>: the maximal runs of characters that are not white space.\<close>

fun split_acc :: "ustr \<Rightarrow> ustr \<Rightarrow> ustr list" where
  "split_acc w [] = (if w = [] then [] else [w])"
| "split_acc w (c # cs) =
     (if isspace c then (if w = [] then split_acc [] cs else w # split_acc [] cs)
      else split_acc (w @ [c]) cs)"

definition split_ws :: "ustr \<Rightarrow> ustr list" where
  "split_ws s = split_acc [] s"

definition strip :: "ustr \<Rightarrow> ustr" where
  "strip s = rev (dropWhile isspace (rev (dropWhile isspace s)))"

fun join :: "ustr \<Rightarrow> ustr list \<Rightarrow> ustr" where
  "join sep [] = []"
| "join sep [x] = x"
| "join sep (x # y # ys) = x @ sep @ join sep (y # ys)"

definition starts_with :: "ustr \<Rightarrow> ustr \<Rightarrow> bool" where
  "starts_with sub s = (take (length sub) s = sub)"

text \<open>\<^verbatim>\<open>s.find(sub)\<close> from offset \<open>i\<close>: the first index where \<open>sub\<close> starts.\<close>

fun find_from :: "ustr \<Rightarrow> ustr \<Rightarrow> nat \<Rightarrow> nat option" where
  "find_from sub [] i = (if sub = [] then Some i else None)"
| "find_from sub (c # cs) i =
     (if starts_with sub (c # cs) then Some i else find_from sub cs (Suc i))"

definition find_str :: "ustr \<Rightarrow> ustr \<Rightarrow> int" where
  "find_str s sub = (case find_from sub s 0 of None \<Rightarrow> - 1 | Some i \<Rightarrow> int i)"

text \<open>\<^verbatim>\<open>sub in s\<close>.\<close>

definition contains :: "ustr \<Rightarrow> ustr \<Rightarrow> bool" where
  "contains s sub = (find_from sub s 0 \<noteq> None)"

text \<open>\<^verbatim>\<open>s.count(sub)\<close> for a non-empty \<open>sub\<close>: occurrences that do not overlap, from the left;
  \<open>k\<close> is the number of characters still covered by the last occurrence.\<close>

fun count_from :: "ustr \<Rightarrow> nat \<Rightarrow> ustr \<Rightarrow> nat" where
  "count_from sub k [] = 0"
| "count_from sub k (c # cs) =
     (if 0 < k then count_from sub (k - 1) cs
      else if starts_with sub (c # cs) then Suc (count_from sub (length sub - 1) cs)
      else count_from sub 0 cs)"

definition count_str :: "ustr \<Rightarrow> ustr \<Rightarrow> nat" where
  "count_str s sub = (if sub = [] then Suc (length s) else count_from sub 0 s)"

text \<open>\<^verbatim>\<open>str(n)\<close> of an integer.\<close>

fun str_nat :: "nat \<Rightarrow> ustr" where
  "str_nat n = (if n < 10 then [48 + n] else str_nat (n div 10) @ [48 + n mod 10])"

definition str_int :: "int \<Rightarrow> ustr" where
  "str_int i = (if i < 0 then 45 # str_nat (nat (- i)) else str_nat (nat i))"

subsection \<open>Exceptions and values\<close>

datatype exn =
    NameError string
  | UnboundLocalError string
  | ValueError string
  | AttributeError string
  | LibraryError string

definition bind_exn :: "exn + 'a \<Rightarrow> ('a \<Rightarrow> exn + 'b) \<Rightarrow> exn + 'b" where
  "bind_exn m f = (case m of Inl e \<Rightarrow> Inl e | Inr x \<Rightarrow> f x)"

text \<open>The values the result dictionaries hold. A \<^verbatim>\<open>dict\<close> is the list of its items in
  insertion order; its keys are literals of the program.\<close>

datatype pyval =
    PInt int
  | PFloat real
  | PStr ustr
  | PList "pyval list"
  | PDict "(string \<times> pyval) list"

fun dict_set :: "('k \<times> 'v) list \<Rightarrow> 'k \<Rightarrow> 'v \<Rightarrow> ('k \<times> 'v) list" where
  "dict_set [] k v = [(k, v)]"
| "dict_set ((k', v') # d) k v = (if k' = k then (k, v) # d else (k', v') # dict_set d k v)"

text \<open>\<^verbatim>\<open>d.update(other)\<close>: each item of \<open>other\<close> is stored in turn.\<close>

fun dict_update :: "pyval \<Rightarrow> (string \<times> pyval) list \<Rightarrow> exn + pyval" where
  "dict_update (PDict d) other = Inr (PDict (foldl (\<lambda>d' (k, v). dict_set d' k v) d other))"
| "dict_update v other = Inl (AttributeError ''update'')"

fun dict_keys :: "pyval \<Rightarrow> string list" where
  "dict_keys (PDict d) = map fst d"
| "dict_keys v = []"

fun getitem :: "pyval \<Rightarrow> string \<Rightarrow> pyval option" where
  "getitem (PDict d) k = map_of d k"
| "getitem v k = None"

subsection \<open>Regular expressions\<close>

text \<open>
  The patterns of the module use literals, character classes, greedy and lazy repetition
  of a class, optional groups, alternation, \<^verbatim>\<open>\b\<close> and \<^verbatim>\<open>$\<close>. A pattern is written as
  a term of \<open>regex\<close>; \<open>ends ic s r i\<close> lists the positions where a match of \<open>r\<close> that
  starts at position \<open>i\<close> of \<open>s\<close> can end, in the order in which Python's backtracking
  matcher tries them (\<open>ic\<close> is \<^verbatim>\<open>re.IGNORECASE\<close>). The first of them is where the match
  found ends.
\<close>

datatype regex =
    Lit ustr
  | Cls "nat \<Rightarrow> bool"
  | Star "nat \<Rightarrow> bool"
  | Plus "nat \<Rightarrow> bool"
  | LazyStar "nat \<Rightarrow> bool"
  | Rep nat "nat option" "nat \<Rightarrow> bool"
  | Opt regex
  | Seq regex regex
  | Alt regex regex
  | WordBoundary
  | EndOfString

fun seqs :: "regex list \<Rightarrow> regex" where
  "seqs [] = Lit []"
| "seqs [r] = r"
| "seqs (r # rs) = Seq r (seqs rs)"

fun alts :: "regex list \<Rightarrow> regex" where
  "alts [] = Cls (\<lambda>c. False)"
| "alts [r] = r"
| "alts (r # rs) = Alt r (alts rs)"

text \<open>The classes \<^verbatim>\<open>[A-Z]\<close>, \<^verbatim>\<open>[a-z]\<close>, \<^verbatim>\<open>\d\<close>, \<^verbatim>\<open>\w\<close>, \<^verbatim>\<open>[^\n]\<close> (and \<^verbatim>\<open>.\<close>), and a
  class given by the list of its members; \<^verbatim>\<open>\s\<close> is \<open>isspace\<close>.\<close>

definition AZ :: "nat \<Rightarrow> bool" where
  "AZ c = (65 \<le> c \<and> c \<le> 90)"

definition az :: "nat \<Rightarrow> bool" where
  "az c = (97 \<le> c \<and> c \<le> 122)"

definition digit :: "nat \<Rightarrow> bool" where
  "digit c = (48 \<le> c \<and> c \<le> 57)"

definition word_char :: "nat \<Rightarrow> bool" where
  "word_char c = (digit c \<or> AZ c \<or> az c \<or> c = 95 \<or> c = 170 \<or> c = 178 \<or> c = 179
     \<or> c = 181 \<or> c = 185 \<or> c = 186 \<or> (188 \<le> c \<and> c \<le> 190)
     \<or> (192 \<le> c \<and> c \<le> 214) \<or> (216 \<le> c \<and> c \<le> 246) \<or> (248 \<le> c \<and> c \<le> 255))"

definition not_newline :: "nat \<Rightarrow> bool" where
  "not_newline c = (c \<noteq> 10)"

definition one_of :: "ustr \<Rightarrow> nat \<Rightarrow> bool" where
  "one_of members c = (c \<in> set members)"

text \<open>Under \<^verbatim>\<open>re.IGNORECASE\<close> a character is in a class when one of its case variants
  is, and equals a literal character when their lower-case forms agree.\<close>

definition cls_match :: "bool \<Rightarrow> (nat \<Rightarrow> bool) \<Rightarrow> nat \<Rightarrow> bool" where
  "cls_match ic P c = (P c \<or> (ic \<and> (P (lower_cp c) \<or> P (upper_cp c))))"

definition lit_match :: "bool \<Rightarrow> ustr \<Rightarrow> ustr \<Rightarrow> bool" where
  "lit_match ic l t = (if ic then lower t = lower l else t = l)"

text \<open>The number of characters of the class at the start of \<open>s\<close>.\<close>

definition run :: "bool \<Rightarrow> (nat \<Rightarrow> bool) \<Rightarrow> ustr \<Rightarrow> nat" where
  "run ic P s = length (takeWhile (cls_match ic P) s)"

text \<open>\<^verbatim>\<open>\b\<close>: exactly one of the characters before and after the position is a word
  character (the outside of the string counts as none).\<close>

definition word_boundary :: "ustr \<Rightarrow> nat \<Rightarrow> bool" where
  "word_boundary s i =
     ((0 < i \<and> i \<le> length s \<and> word_char (s ! (i - 1))) \<noteq> (i < length s \<and> word_char (s ! i)))"

fun ends :: "bool \<Rightarrow> ustr \<Rightarrow> regex \<Rightarrow> nat \<Rightarrow> nat list" where
  "ends ic s (Lit l) i =
     (if i + length l \<le> length s \<and> lit_match ic l (take (length l) (drop i s))
      then [i + length l] else [])"
| "ends ic s (Cls P) i = (if i < length s \<and> cls_match ic P (s ! i) then [Suc i] else [])"
| "ends ic s (Star P) i = rev [i ..< Suc (i + run ic P (drop i s))]"
| "ends ic s (Plus P) i = rev [Suc i ..< Suc (i + run ic P (drop i s))]"
| "ends ic s (LazyStar P) i = [i ..< Suc (i + run ic P (drop i s))]"
| "ends ic s (Rep m n P) i =
     (let k = run ic P (drop i s);
          k' = (case n of None \<Rightarrow> k | Some n' \<Rightarrow> min k n')
      in rev [i + m ..< Suc (i + k')])"
| "ends ic s (Opt r) i = ends ic s r i @ [i]"
| "ends ic s (Seq r1 r2) i = concat (map (ends ic s r2) (ends ic s r1 i))"
| "ends ic s (Alt r1 r2) i = ends ic s r1 i @ ends ic s r2 i"
| "ends ic s WordBoundary i = (if word_boundary s i then [i] else [])"
| "ends ic s EndOfString i =
     (if i = length s \<or> (Suc i = length s \<and> s ! i = 10) then [i] else [])"

text \<open>\<^verbatim>\<open>re.search(pattern, s)\<close>: the match at the leftmost position that has one, as
  \<open>(start, end)\<close>.\<close>

fun search_from :: "bool \<Rightarrow> regex \<Rightarrow> ustr \<Rightarrow> nat list \<Rightarrow> (nat \<times> nat) option" where
  "search_from ic r s [] = None"
| "search_from ic r s (i # is) =
     (case ends ic s r i of [] \<Rightarrow> search_from ic r s is | e # es \<Rightarrow> Some (i, e))"

definition re_search :: "bool \<Rightarrow> regex \<Rightarrow> ustr \<Rightarrow> (nat \<times> nat) option" where
  "re_search ic r s = search_from ic r s [0 ..< Suc (length s)]"

text \<open>\<^verbatim>\<open>len(re.findall(pattern, s))\<close>: matches from the left that do not overlap; \<open>lo\<close> is
  where the next match may start.\<close>

fun findall_from :: "bool \<Rightarrow> regex \<Rightarrow> ustr \<Rightarrow> nat \<Rightarrow> nat list \<Rightarrow> nat" where
  "findall_from ic r s lo [] = 0"
| "findall_from ic r s lo (i # is) =
     (if i < lo then findall_from ic r s lo is
      else case ends ic s r i of
             [] \<Rightarrow> findall_from ic r s lo is
           | e # es \<Rightarrow> Suc (findall_from ic r s (if e = i then Suc i else e) is))"

definition findall_count :: "bool \<Rightarrow> regex \<Rightarrow> ustr \<Rightarrow> nat" where
  "findall_count ic r s = findall_from ic r s 0 [0 ..< Suc (length s)]"

text \<open>\<^verbatim>\<open>s[a:b]\<close> for \<open>a\<close> and \<open>b\<close> within the string.\<close>

definition slice :: "ustr \<Rightarrow> nat \<Rightarrow> nat \<Rightarrow> ustr" where
  "slice s a b = take (b - a) (drop a s)"

subsection \<open>Section detector\<close>

text \<open>The dictionary \<^verbatim>\<open>sections\<close> of \<^verbatim>\<open>check_sections\<close>, in insertion order.\<close>

definition sections :: "(string \<times> ustr list) list" where
  "sections =
     [(''experience'',
        [U ''experience'', U ''work history'', U ''professional background'', U ''employment'',
         U ''work experience'', U ''career history'', U ''professional experience'',
         U ''employment history'', U ''work background'', U ''professional journey'']),
      (''education'',
        [U ''education'', U ''academic'', U ''qualification'', U ''degree'', U ''university'',
         U ''college'', U ''school'', U ''certification'', U ''academic background'',
         U ''educational background'', U ''academic qualifications'', U ''degrees'',
         U ''certifications'', U ''training'', U ''courses'']),
      (''skills'',
        [U ''skills'', U ''abilities'', U ''competencies'', U ''expertise'', U ''proficiencies'',
         U ''technical skills'', U ''core competencies'', U ''technical expertise'',
         U ''professional skills'', U ''key skills'', U ''skill set'', U ''capabilities'',
         U ''technical proficiencies'', U ''areas of expertise'']),
      (''summary'',
        [U ''summary'', U ''profile'', U ''objective'', U ''about me'',
         U ''professional summary'', U ''career objective'', U ''professional profile'',
         U ''executive summary'', U ''career summary'', U ''personal statement'',
         U ''professional overview'', U ''career profile'', U ''professional statement'']),
      (''projects'',
        [U ''projects'', U ''portfolio'', U ''project experience'', U ''project history'',
         U ''project work'', U ''project portfolio'', U ''project showcase'',
         U ''project achievements'', U ''project highlights'', U ''project details'']),
      (''achievements'',
        [U ''achievements'', U ''accomplishments'', U ''awards'', U ''recognition'',
         U ''honors'', U ''certifications'', U ''professional achievements'',
         U ''key achievements'', U ''notable accomplishments'', U ''awards and recognition''])]"

definition weights :: "(string \<times> real) list" where
  "weights = [(''experience'', 0.25), (''education'', 0.20), (''skills'', 0.20),
     (''summary'', 0.15), (''projects'', 0.10), (''achievements'', 0.10)]"

text \<open>
  \<^verbatim>\<open>keyword\<close> is a local variable of \<^verbatim>\<open>check_sections\<close>: the two inner \<^verbatim>\<open>for\<close> loops
  assign it. Its value is \<open>None\<close> until the first assignment, and reading it then raises
  \<^verbatim>\<open>UnboundLocalError\<close>.
\<close>

definition local_value :: "string \<Rightarrow> 'a option \<Rightarrow> exn + 'a" where
  "local_value name v = (case v of None \<Rightarrow> Inl (UnboundLocalError name) | Some x \<Rightarrow> Inr x)"

text \<open>The list \<^verbatim>\<open>header_patterns\<close>: five f-strings, each with the value of \<^verbatim>\<open>keyword\<close>
  put in when the list is built. The bullet of the third pattern is U+2022.\<close>

definition header_patterns :: "ustr \<Rightarrow> regex list" where
  "header_patterns keyword =
     [seqs [WordBoundary, Lit keyword, Star isspace, Lit (U '':'')],
      seqs [Lit [10], Star isspace, Lit keyword, Star isspace, Lit [10]],
      seqs [Lit [10], Star isspace, Lit keyword, Star isspace, Star not_newline, Lit [10],
            Star isspace, Cls (one_of [45, 8226, 42])],
      seqs [Lit [10], Star isspace, Lit keyword, Star isspace, Star not_newline, Lit [10],
            Star isspace, Cls AZ],
      seqs [Lit [10], Star isspace, Lit keyword, Star isspace, Star not_newline, Lit [10],
            Star isspace, Plus digit, Lit (U ''.'')]]"

text \<open>\<^verbatim>\<open>_check_section_headers\<close>, which no function of the module calls, builds the first
  three of these patterns inside its loop over the keywords, where \<^verbatim>\<open>keyword\<close> is bound.\<close>

definition check_section_headers :: "ustr \<Rightarrow> ustr list \<Rightarrow> bool" where
  "check_section_headers resume_text section_keywords =
     list_ex (\<lambda>keyword.
         list_ex (\<lambda>pattern. re_search True pattern resume_text \<noteq> None)
           (take 3 (header_patterns keyword)))
       section_keywords"

text \<open>The loop that looks for a header. The patterns hold no brace any more, so
  \<^verbatim>\<open>pattern.format(keyword=keyword)\<close> is the pattern itself. The loop returns
  \<^verbatim>\<open>header_detected\<close> and the value it leaves in \<^verbatim>\<open>keyword\<close>.\<close>

fun header_loop :: "regex list \<Rightarrow> ustr \<Rightarrow> ustr list \<Rightarrow> ustr \<Rightarrow> bool \<times> ustr" where
  "header_loop patterns resume_text [] keyword = (False, keyword)"
| "header_loop patterns resume_text (kw # rest) keyword =
     (if list_ex (\<lambda>pattern. re_search True pattern resume_text \<noteq> None) patterns
      then (True, kw)
      else header_loop patterns resume_text rest kw)"

text \<open>The loop that looks for content: the pattern is \<^verbatim>\<open>\n.*?{keyword}.*?\n\<close>.\<close>

fun content_loop :: "ustr \<Rightarrow> ustr list \<Rightarrow> ustr \<Rightarrow> bool \<times> ustr" where
  "content_loop resume_text [] keyword = (False, keyword)"
| "content_loop resume_text (kw # rest) keyword =
     (if contains (lower resume_text) kw then
        (case re_search True
                (seqs [Lit [10], LazyStar not_newline, Lit kw, LazyStar not_newline, Lit [10]])
                resume_text of
           None \<Rightarrow> content_loop resume_text rest kw
         | Some (a, b) \<Rightarrow>
             if length kw + 5 < length (strip (slice resume_text a b)) then (True, kw)
             else content_loop resume_text rest kw)
      else content_loop resume_text rest kw)"

text \<open>The loop over \<^verbatim>\<open>sections.items()\<close>, with the local \<^verbatim>\<open>keyword\<close> and the dictionary
  \<^verbatim>\<open>section_scores\<close> as they stand when an iteration starts.\<close>

fun sections_loop ::
    "ustr \<Rightarrow> (string \<times> ustr list) list \<Rightarrow> ustr option \<Rightarrow> (string \<times> real) list
      \<Rightarrow> exn + (string \<times> real) list" where
  "sections_loop resume_text [] keyword section_scores = Inr section_scores"
| "sections_loop resume_text ((section_name, section_keywords) # rest) keyword section_scores =
     bind_exn (local_value ''keyword'' keyword) (\<lambda>k.
       let (header_detected, k1) =
             header_loop (header_patterns k) resume_text section_keywords k;
           (content_detected, k2) = content_loop resume_text section_keywords k1;
           score = (if header_detected then 1.0 else if content_detected then 0.7 else 0.0)
       in sections_loop resume_text rest (Some k2)
            (dict_set section_scores section_name score))"

definition check_sections :: "ustr \<Rightarrow> exn + real" where
  "check_sections resume_text =
     bind_exn (sections_loop resume_text sections None []) (\<lambda>section_scores.
       Inr (sum_list (map (\<lambda>(section, weight).
              (case map_of section_scores section of None \<Rightarrow> 0 | Some v \<Rightarrow> v) * weight)
            weights)))"

subsection \<open>Keyword matcher\<close>

definition technical_terms :: "ustr list" where
  "technical_terms = [U ''python'', U ''java'', U ''javascript'', U ''react'', U ''aws'',
     U ''cloud'', U ''ml'', U ''ai'', U ''docker'', U ''kubernetes'', U ''sql'', U ''nosql'',
     U ''devops'', U ''security'']"

definition framework_terms :: "ustr list" where
  "framework_terms = [U ''react'', U ''angular'', U ''vue'', U ''django'', U ''flask'',
     U ''spring'', U ''express'', U ''tensorflow'', U ''pytorch'', U ''scikit-learn'']"

definition cloud_terms :: "ustr list" where
  "cloud_terms = [U ''aws'', U ''azure'', U ''gcp'', U ''cloud'', U ''s3'', U ''ec2'',
     U ''lambda'', U ''kubernetes'', U ''docker'', U ''terraform'']"

text \<open>\<^verbatim>\<open>base_weight\<close> of one keyword.\<close>

definition base_weight :: "ustr \<Rightarrow> real" where
  "base_weight kw =
     1.0 + (if list_ex (\<lambda>tech. contains (lower kw) tech) technical_terms then 0.5 else 0)
         + (if list_ex (\<lambda>fw. contains (lower kw) fw) framework_terms then 0.3 else 0)
         + (if list_ex (\<lambda>cloud. contains (lower kw) cloud) cloud_terms then 0.4 else 0)"

text \<open>The dictionary \<^verbatim>\<open>keyword_importance\<close>: one item per lower-cased keyword.\<close>

definition keyword_importance :: "ustr list \<Rightarrow> (ustr \<times> real) list" where
  "keyword_importance job_keywords =
     foldl (\<lambda>d kw. dict_set d (lower kw) (base_weight kw)) [] job_keywords"

text \<open>\<^verbatim>\<open>re.sub(r'[.,;:!?()\[\]{}]', ' ', resume_text)\<close>, then
  \<^verbatim>\<open>re.sub(r'\s+', ' ', ...).strip()\<close>.\<close>

fun collapse_ws :: "bool \<Rightarrow> ustr \<Rightarrow> ustr" where
  "collapse_ws in_run [] = []"
| "collapse_ws in_run (c # cs) =
     (if isspace c then (if in_run then collapse_ws True cs else 32 # collapse_ws True cs)
      else c # collapse_ws False cs)"

definition clean :: "ustr \<Rightarrow> ustr" where
  "clean resume_text =
     strip (collapse_ws False
       (map (\<lambda>c. if c \<in> set (U ''.,;:!?()[]{}'') then 32 else c) resume_text))"

text \<open>\<^verbatim>\<open>get_skill_similarity\<close>; \<open>sm a b\<close> is \<^verbatim>\<open>SequenceMatcher(None, a, b).ratio()\<close>.\<close>

definition get_skill_similarity :: "(ustr \<Rightarrow> ustr \<Rightarrow> real) \<Rightarrow> ustr \<Rightarrow> ustr \<Rightarrow> real" where
  "get_skill_similarity sm skill1 skill2 = sm (lower skill1) (lower skill2)"

text \<open>
  The body of the matching loop for one item \<open>(kw, weight)\<close> of \<^verbatim>\<open>keyword_importance\<close>:
  \<open>Some v\<close> when the loop stores \<^verbatim>\<open>matches[kw] = v\<close>, \<open>None\<close> when it stores nothing.
  \<open>contextual_match\<close> is the block under \<^verbatim>\<open>if ' ' in kw\<close>; \<^verbatim>\<open>max\<close> of the empty list
  raises \<^verbatim>\<open>ValueError\<close>.
\<close>

definition contextual_match :: "ustr \<Rightarrow> ustr \<Rightarrow> real \<Rightarrow> exn + real option" where
  "contextual_match clean_resume kw weight =
     (let kw_parts = split_ws kw;
          long_parts = filter (\<lambda>part. 3 < length part) kw_parts
      in bind_exn
           (if list_all (\<lambda>part. contains clean_resume part) long_parts then
              (let parts_positions = map (\<lambda>part. find_str clean_resume part) long_parts in
               if list_all (\<lambda>pos. pos \<noteq> - 1) parts_positions then
                 (if parts_positions = []
                  then Inl (ValueError ''max() arg is an empty sequence'')
                  else (let max_distance = Max (set parts_positions) - Min (set parts_positions)
                        in if max_distance < 50 then Inr (Some (weight * 0.9)) else Inr None))
               else Inr None)
            else Inr None)
           (\<lambda>close. case close of
              Some v \<Rightarrow> Inr (Some v)
            | None \<Rightarrow>
                Inr (if 2 < length kw_parts
                        \<and> real (length kw_parts) * 0.7
                            \<le> real (length (filter (\<lambda>part. contains clean_resume part
                                                        \<and> 3 < length part) kw_parts))
                     then Some (weight * 0.7) else None)))"

definition match_keyword ::
    "(ustr \<Rightarrow> ustr \<Rightarrow> real) \<Rightarrow> ustr \<Rightarrow> ustr \<Rightarrow> real \<Rightarrow> exn + real option" where
  "match_keyword sm clean_resume kw weight =
     (if contains (U '' '' @ clean_resume @ U '' '') (U '' '' @ kw @ U '' '')
      then Inr (Some weight)
      else bind_exn
             (if contains kw (U '' '') then contextual_match clean_resume kw weight
              else Inr None)
             (\<lambda>m. case m of
                Some v \<Rightarrow> Inr (Some v)
              | None \<Rightarrow>
                  Inr (if length (split_ws kw) = 1 \<and> 3 < length kw
                          \<and> list_ex (\<lambda>word. 3 < length word
                                \<and> 0.8 < get_skill_similarity sm kw word)
                              (split_ws clean_resume)
                       then Some (weight * 0.6) else None)))"

text \<open>The matching loop: the dictionary \<^verbatim>\<open>matches\<close> it builds.\<close>

fun match_keywords ::
    "(ustr \<Rightarrow> ustr \<Rightarrow> real) \<Rightarrow> ustr \<Rightarrow> (ustr \<times> real) list \<Rightarrow> (ustr \<times> real) list
      \<Rightarrow> exn + (ustr \<times> real) list" where
  "match_keywords sm clean_resume [] matches = Inr matches"
| "match_keywords sm clean_resume ((kw, weight) # rest) matches =
     bind_exn (match_keyword sm clean_resume kw weight) (\<lambda>m.
       match_keywords sm clean_resume rest
         (case m of None \<Rightarrow> matches | Some v \<Rightarrow> dict_set matches kw v))"

text \<open>The pattern \<^verbatim>\<open>\n\s*{section}.*?\n\<close> of the context bonus and of
  \<^verbatim>\<open>check_context_relevance\<close>.\<close>

definition section_line :: "ustr \<Rightarrow> regex" where
  "section_line section =
     seqs [Lit [10], Star isspace, Lit section, LazyStar not_newline, Lit [10]]"

definition context_bonus :: "ustr \<Rightarrow> (ustr \<times> real) list \<Rightarrow> real" where
  "context_bonus resume_text matches =
     (if 0 < length matches then
        sum_list (map (\<lambda>section.
          case re_search True (section_line section) resume_text of
            None \<Rightarrow> 0
          | Some (a, b) \<Rightarrow>
              (let section_text = lower (slice resume_text a b);
                   section_matches = length (filter (\<lambda>(kw, v). contains section_text kw) matches)
               in if 0 < section_matches then 0.1 else 0))
          [U ''experience'', U ''skills'', U ''projects''])
      else 0.0)"

definition check_keywords :: "(ustr \<Rightarrow> ustr \<Rightarrow> real) \<Rightarrow> ustr \<Rightarrow> ustr list \<Rightarrow> exn + real" where
  "check_keywords sm resume_text job_keywords =
     (if job_keywords = [] then Inr 0
      else
        (let clean_resume = clean resume_text;
             importance = keyword_importance job_keywords;
             total_weight = sum_list (map snd importance)
         in bind_exn (match_keywords sm clean_resume importance []) (\<lambda>matches.
              if total_weight = 0 then Inr 0
              else
                (let weighted_score = sum_list (map snd matches) / total_weight;
                     keyword_density = real (length matches) / real (max 1 (length job_keywords));
                     density_bonus = min 0.3 (keyword_density * 0.5)
                 in Inr (min 1.0 (weighted_score + density_bonus
                                    + context_bonus resume_text matches))))))"

subsection \<open>Formatting analyzer\<close>

text \<open>The four \<^verbatim>\<open>header_patterns\<close> of \<^verbatim>\<open>check_formatting\<close>.\<close>

definition format_header_patterns :: "regex list" where
  "format_header_patterns =
     [seqs [Lit [10], Cls AZ, Plus (\<lambda>c. AZ c \<or> isspace c), Lit (U '':'')],
      seqs [Lit [10], Cls AZ, Plus (\<lambda>c. AZ c \<or> isspace c), Lit [10]],
      seqs [Lit [10], Cls AZ, Plus az, Cls isspace, Cls AZ, Plus az, Lit (U '':'')],
      seqs [Lit [10], Star isspace, Plus digit, Lit (U ''.''), Star isspace, Cls AZ, Plus az]]"

definition date_patterns :: "regex list" where
  "date_patterns =
     [seqs [WordBoundary,
            alts (map Lit [U ''Jan'', U ''Feb'', U ''Mar'', U ''Apr'', U ''May'', U ''Jun'',
                           U ''Jul'', U ''Aug'', U ''Sep'', U ''Oct'', U ''Nov'', U ''Dec'']),
            Star az, Lit (U '' ''), Rep 4 (Some 4) digit, WordBoundary],
      seqs [WordBoundary, Rep 2 (Some 2) digit, Lit (U ''/''), Rep 2 (Some 2) digit,
            Lit (U ''/''), Rep 4 (Some 4) digit, WordBoundary],
      seqs [WordBoundary, Rep 4 (Some 4) digit, Lit (U ''-''), Rep 2 (Some 2) digit,
            Lit (U ''-''), Rep 2 (Some 2) digit, WordBoundary],
      seqs [WordBoundary, Rep 4 (Some 4) digit, Star isspace, Lit (U ''-''), Star isspace,
            alts [Lit (U ''Present''), Lit (U ''Current''), Lit (U ''Now'')], WordBoundary]]"

definition contact_patterns :: "regex list" where
  "contact_patterns =
     [seqs [WordBoundary, Plus (\<lambda>c. AZ c \<or> az c \<or> digit c \<or> one_of (U ''._%+-'') c),
            Lit (U ''@''), Plus (\<lambda>c. AZ c \<or> az c \<or> digit c \<or> one_of (U ''.-'') c),
            Lit (U ''.''), Rep 2 None (\<lambda>c. AZ c \<or> c = 124 \<or> az c), WordBoundary],
      seqs [WordBoundary,
            Opt (seqs [Lit (U ''+''), Rep 1 (Some 3) digit, Rep 0 (Some 1) isspace]),
            Alt (seqs [Lit (U ''(''), Rep 3 (Some 3) digit, Lit (U '')'')])
                (Rep 3 (Some 3) digit),
            Rep 0 (Some 1) (\<lambda>c. one_of (U ''-.'') c \<or> isspace c), Rep 3 (Some 3) digit,
            Rep 0 (Some 1) (\<lambda>c. one_of (U ''-.'') c \<or> isspace c), Rep 4 (Some 4) digit,
            WordBoundary],
      seqs [Lit (U ''linkedin.com/in/''),
            Plus (\<lambda>c. az c \<or> AZ c \<or> digit c \<or> one_of (U ''_-'') c)],
      seqs [Lit (U ''github.com/''),
            Plus (\<lambda>c. az c \<or> AZ c \<or> digit c \<or> one_of (U ''_-'') c)]]"

definition check_formatting :: "ustr \<Rightarrow> real" where
  "check_formatting resume_text =
     (let bullet_count = count_str resume_text [8226] + count_str resume_text (U ''- '')
                           + count_str resume_text (U ''* '');
          numbered_bullets =
            findall_count False (seqs [Lit [10], Star isspace, Plus digit, Lit (U ''.'')])
              resume_text;
          total_bullets = bullet_count + numbered_bullets;
          bullets_score = (if 10 \<le> total_bullets then 0.35 else if 5 \<le> total_bullets then 0.25
                           else if 0 < total_bullets then 0.15 else 0);
          headers_count =
            sum_list (map (\<lambda>pattern. findall_count False pattern resume_text)
                        format_header_patterns);
          headers_score = (if 5 \<le> headers_count then 0.35 else if 3 \<le> headers_count then 0.25
                           else if 0 < headers_count then 0.15 else 0);
          date_formats_found =
            length (filter (\<lambda>pattern. re_search False pattern resume_text \<noteq> None)
                      date_patterns);
          date_format_score = min 0.15 (real date_formats_found * 0.05);
          contact_score =
            real (length (filter (\<lambda>pattern. re_search False pattern resume_text \<noteq> None)
                            contact_patterns)) * 0.05;
          format_score = bullets_score + headers_score + date_format_score
                           + min 0.15 contact_score
      in min format_score 1.0)"

subsection \<open>Context-relevance analyzer\<close>

text \<open>The pattern \<^verbatim>\<open>\n\s*[A-Z][A-Z\s]+\s*(?::|$)\<close>, searched with \<^verbatim>\<open>re.IGNORECASE\<close>.\<close>

definition next_section :: regex where
  "next_section =
     seqs [Lit [10], Star isspace, Cls AZ, Plus (\<lambda>c. AZ c \<or> isspace c), Star isspace,
           Alt (Lit (U '':'')) EndOfString]"

definition check_context_relevance :: "ustr \<Rightarrow> ustr list \<Rightarrow> real" where
  "check_context_relevance resume_text job_keywords =
     (if job_keywords = [] then 0
      else min
        (sum_list (map (\<lambda>section.
           case re_search True (section_line section) resume_text of
             None \<Rightarrow> 0
           | Some (section_start, b) \<Rightarrow>
               (let rest = drop (section_start + 1) resume_text;
                    section_end = (case re_search True next_section rest of
                        Some (a', b') \<Rightarrow> section_start + 1 + a'
                      | None \<Rightarrow> length resume_text);
                    section_text = lower (slice resume_text section_start section_end);
                    section_keywords =
                      length (filter (\<lambda>kw. contains section_text (lower kw)) job_keywords);
                    weight = (if section \<in> set [U ''experience'', U ''skill'']
                              then 0.4 else 0.2)
                in real section_keywords / real (length job_keywords) * weight))
           [U ''experience'', U ''project'', U ''skill'', U ''education'']))
        1.0)"

subsection \<open>Heuristic aggregator\<close>

text \<open>\<^verbatim>\<open>round(x, 2)\<close>: to the nearest hundredth, a tie to the even one.\<close>

definition round2 :: "real \<Rightarrow> real" where
  "round2 x =
     (let y = x * 100; f = \<lfloor>y\<rfloor>; d = y - of_int f
      in of_int (if d < 1 / 2 then f else if 1 / 2 < d then f + 1
                 else if even f then f else f + 1) / 100)"

definition ats_score :: "(ustr \<Rightarrow> ustr \<Rightarrow> real) \<Rightarrow> ustr \<Rightarrow> ustr list \<Rightarrow> exn + real" where
  "ats_score sm resume_text job_keywords =
     (if resume_text = [] \<or> job_keywords = [] then Inr 0.0
      else
        (let resume_text' = lower resume_text;
             job_keywords' = map strip (filter (\<lambda>kw. strip kw \<noteq> []) job_keywords)
         in bind_exn (check_sections resume_text') (\<lambda>section_score.
            bind_exn (check_keywords sm resume_text' job_keywords') (\<lambda>keyword_score.
              let format_score = check_formatting resume_text';
                  context_score = check_context_relevance resume_text' job_keywords';
                  final_score = section_score * 0.25 + keyword_score * 0.35
                                  + format_score * 0.20 + context_score * 0.20
              in Inr (round2 (final_score * 100))))))"

subsection \<open>Insight generator\<close>

text \<open>
  \<^verbatim>\<open>identify_strengths\<close>, \<^verbatim>\<open>identify_weaknesses\<close> and \<^verbatim>\<open>suggest_improvements\<close> call seven
  helpers by their bare names. Python looks such a name up in the module's globals when
  the call is evaluated and raises \<^verbatim>\<open>NameError\<close> when it has no binding. A \<open>namespace\<close>
  gives each name its binding, if any; \<open>module_namespace\<close> is the one the module has.

  Modelled from the spec: the helpers \<^verbatim>\<open>extract_required_skills\<close>, \<^verbatim>\<open>extract_skills\<close>,
  \<^verbatim>\<open>extract_experience_level\<close>, \<^verbatim>\<open>extract_experience_years\<close>,
  \<^verbatim>\<open>extract_education_requirements\<close>, \<^verbatim>\<open>extract_education\<close> and \<^verbatim>\<open>is_well_formatted\<close>
  are defined nowhere; the types of their bindings are those of the facts the spec's
  Insight Generator derives (skill and credential lists, years, a boolean).
\<close>

record namespace =
  extract_required_skills :: "(ustr \<Rightarrow> exn + ustr list) option"
  extract_skills :: "(ustr \<Rightarrow> exn + ustr list) option"
  extract_experience_level :: "(ustr \<Rightarrow> exn + int) option"
  extract_experience_years :: "(ustr \<Rightarrow> exn + int) option"
  extract_education_requirements :: "(ustr \<Rightarrow> exn + ustr list) option"
  extract_education :: "(ustr \<Rightarrow> exn + ustr list) option"
  is_well_formatted :: "(ustr \<Rightarrow> exn + bool) option"

text \<open>The module binds none of the seven names: it has no \<^verbatim>\<open>def\<close>, assignment or
  import of any of them.\<close>

definition module_namespace :: namespace where
  "module_namespace = \<lparr>extract_required_skills = None, extract_skills = None,
     extract_experience_level = None, extract_experience_years = None,
     extract_education_requirements = None, extract_education = None,
     is_well_formatted = None\<rparr>"

definition call :: "string \<Rightarrow> ('a \<Rightarrow> exn + 'b) option \<Rightarrow> 'a \<Rightarrow> exn + 'b" where
  "call name f x = (case f of None \<Rightarrow> Inl (NameError name) | Some g \<Rightarrow> g x)"

text \<open>The \<^verbatim>\<open>try\<close> block of \<^verbatim>\<open>identify_strengths\<close>.\<close>

definition strengths_body :: "namespace \<Rightarrow> ustr \<Rightarrow> ustr \<Rightarrow> exn + ustr list" where
  "strengths_body ns resume_text job_description =
     bind_exn (call ''extract_required_skills'' (extract_required_skills ns) job_description)
       (\<lambda>required_skills.
     bind_exn (call ''extract_skills'' (extract_skills ns) resume_text)
       (\<lambda>resume_skills.
     let matching_skills = filter (\<lambda>skill. skill \<in> set resume_skills) required_skills;
         strengths1 = (if matching_skills = [] then []
            else [U ''Strong match with required skills: '' @ join (U '', '') matching_skills])
     in
     bind_exn (call ''extract_experience_level'' (extract_experience_level ns) job_description)
       (\<lambda>exp_level.
     bind_exn (call ''extract_experience_years'' (extract_experience_years ns) resume_text)
       (\<lambda>resume_exp.
     let strengths2 = strengths1 @ (if exp_level \<le> resume_exp
            then [U ''Meets or exceeds required experience level ('' @ str_int exp_level
                    @ U '' years)'']
            else [])
     in
     bind_exn (call ''extract_education_requirements'' (extract_education_requirements ns)
                 job_description)
       (\<lambda>edu_req.
     bind_exn (call ''extract_education'' (extract_education ns) resume_text)
       (\<lambda>resume_edu.
     let strengths3 = strengths2 @ (if list_ex (\<lambda>edu. edu \<in> set resume_edu) edu_req
            then [U ''Meets education requirements''] else [])
     in
     bind_exn (call ''is_well_formatted'' (is_well_formatted ns) resume_text)
       (\<lambda>well_formatted.
     Inr (strengths3 @ (if well_formatted
            then [U ''Well-formatted resume with clear sections''] else [])))))))))"

definition identify_strengths :: "namespace \<Rightarrow> ustr \<Rightarrow> ustr \<Rightarrow> exn + ustr list" where
  "identify_strengths ns resume_text job_description =
     (case strengths_body ns resume_text job_description of
        Inl e \<Rightarrow> Inr []
      | Inr strengths \<Rightarrow> Inr strengths)"

text \<open>The \<^verbatim>\<open>try\<close> block of \<^verbatim>\<open>identify_weaknesses\<close>.\<close>

definition weaknesses_body :: "namespace \<Rightarrow> ustr \<Rightarrow> ustr \<Rightarrow> exn + ustr list" where
  "weaknesses_body ns resume_text job_description =
     bind_exn (call ''extract_required_skills'' (extract_required_skills ns) job_description)
       (\<lambda>required_skills.
     bind_exn (call ''extract_skills'' (extract_skills ns) resume_text)
       (\<lambda>resume_skills.
     let missing_skills = filter (\<lambda>skill. skill \<notin> set resume_skills) required_skills;
         weaknesses1 = (if missing_skills = [] then []
            else [U ''Missing required skills: '' @ join (U '', '') missing_skills])
     in
     bind_exn (call ''extract_experience_level'' (extract_experience_level ns) job_description)
       (\<lambda>exp_level.
     bind_exn (call ''extract_experience_years'' (extract_experience_years ns) resume_text)
       (\<lambda>resume_exp.
     let weaknesses2 = weaknesses1 @ (if resume_exp < exp_level
            then [U ''Below required experience level ('' @ str_int exp_level @ U '' years)'']
            else [])
     in
     bind_exn (call ''extract_education_requirements'' (extract_education_requirements ns)
                 job_description)
       (\<lambda>edu_req.
     bind_exn (call ''extract_education'' (extract_education ns) resume_text)
       (\<lambda>resume_edu.
     let weaknesses3 = weaknesses2 @ (if list_ex (\<lambda>edu. edu \<in> set resume_edu) edu_req
            then [] else [U ''Does not meet education requirements''])
     in
     bind_exn (call ''is_well_formatted'' (is_well_formatted ns) resume_text)
       (\<lambda>well_formatted.
     Inr (weaknesses3 @ (if well_formatted then []
            else [U ''Resume format could be improved''])))))))))"

definition identify_weaknesses :: "namespace \<Rightarrow> ustr \<Rightarrow> ustr \<Rightarrow> exn + ustr list" where
  "identify_weaknesses ns resume_text job_description =
     (case weaknesses_body ns resume_text job_description of
        Inl e \<Rightarrow> Inr []
      | Inr weaknesses \<Rightarrow> Inr weaknesses)"

text \<open>The \<^verbatim>\<open>try\<close> block of \<^verbatim>\<open>suggest_improvements\<close>.\<close>

definition improvements_body :: "namespace \<Rightarrow> ustr \<Rightarrow> ustr \<Rightarrow> exn + ustr list" where
  "improvements_body ns resume_text job_description =
     bind_exn (call ''extract_required_skills'' (extract_required_skills ns) job_description)
       (\<lambda>required_skills.
     bind_exn (call ''extract_skills'' (extract_skills ns) resume_text)
       (\<lambda>resume_skills.
     let missing_skills = filter (\<lambda>skill. skill \<notin> set resume_skills) required_skills;
         improvements1 = (if missing_skills = [] then []
            else [U ''Add missing required skills: '' @ join (U '', '') missing_skills])
     in
     bind_exn (call ''extract_experience_level'' (extract_experience_level ns) job_description)
       (\<lambda>exp_level.
     bind_exn (call ''extract_experience_years'' (extract_experience_years ns) resume_text)
       (\<lambda>resume_exp.
     let improvements2 = improvements1 @ (if resume_exp < exp_level
            then [U ''Highlight relevant experience to meet '' @ str_int exp_level
                    @ U '' years requirement'']
            else [])
     in
     bind_exn (call ''extract_education_requirements'' (extract_education_requirements ns)
                 job_description)
       (\<lambda>edu_req.
     bind_exn (call ''extract_education'' (extract_education ns) resume_text)
       (\<lambda>resume_edu.
     let improvements3 = improvements2 @ (if list_ex (\<lambda>edu. edu \<in> set resume_edu) edu_req
            then []
            else [U ''Consider adding '' @ join (U '', '') edu_req @ U '' education''])
     in
     bind_exn (call ''is_well_formatted'' (is_well_formatted ns) resume_text)
       (\<lambda>well_formatted.
     Inr (improvements3 @ (if well_formatted then []
            else [U ''Improve resume formatting with clear sections and bullet points''])))))))))"

definition suggest_improvements :: "namespace \<Rightarrow> ustr \<Rightarrow> ustr \<Rightarrow> exn + ustr list" where
  "suggest_improvements ns resume_text job_description =
     (case improvements_body ns resume_text job_description of
        Inl e \<Rightarrow> Inr []
      | Inr improvements \<Rightarrow> Inr improvements)"

subsection \<open>Semantic scorer\<close>

text \<open>
  The similarity provider and the other library functions the scorer calls.
  \<open>get_sentence_transformer lib n\<close> is what the \<open>n\<close>-th call of the loader
  \<^verbatim>\<open>utils.model_loader.get_sentence_transformer\<close> does in this process: it returns a model
  (or \<^verbatim>\<open>None\<close>) or raises. A model is its \<^verbatim>\<open>encode\<close>, a function of the texts (the spec's provider is
  deterministic for identical input) that may raise. \<open>set_order\<close> is the order in which
  \<^verbatim>\<open>list(s)\<close> and \<^verbatim>\<open>', '.join(s)\<close> enumerate a set of strings.
\<close>

type_synonym vector = "real list"

record sentence_transformer =
  encode :: "ustr list \<Rightarrow> exn + vector list"

record library =
  get_sentence_transformer :: "nat \<Rightarrow> exn + sentence_transformer option"
  cosine_similarity :: "vector \<Rightarrow> vector \<Rightarrow> exn + real"
  set_order :: "ustr set \<Rightarrow> ustr list"

text \<open>An instance of \<^verbatim>\<open>class ATSScorer\<close>: \<^verbatim>\<open>self.model\<close> (\<open>None\<close> is Python's
  \<^verbatim>\<open>None\<close>) and \<^verbatim>\<open>self.initialized\<close>.\<close>

record ATSScorer =
  model :: "sentence_transformer option"
  initialized :: bool

text \<open>The state of the process: the global \<^verbatim>\<open>_ats_scorer\<close>, and how many times the
  loader has been called so far.\<close>

record process =
  ats_scorer :: "ATSScorer option"
  loader_calls :: nat

definition fresh_process :: process where
  "fresh_process = \<lparr>ats_scorer = None, loader_calls = 0\<rparr>"

text \<open>\<^verbatim>\<open>ATSScorer.__init__\<close> with \<^verbatim>\<open>_initialize_model\<close>: one call of the loader; when it
  raises, \<^verbatim>\<open>self.model\<close> keeps the \<^verbatim>\<open>None\<close> of the constructor.\<close>

definition initialize_model :: "library \<Rightarrow> process \<Rightarrow> ATSScorer \<times> process" where
  "initialize_model lib p =
     (case get_sentence_transformer lib (loader_calls p) of
        Inr m \<Rightarrow> (\<lparr>model = m, initialized = True\<rparr>, p\<lparr>loader_calls := Suc (loader_calls p)\<rparr>)
      | Inl e \<Rightarrow> (\<lparr>model = None, initialized = False\<rparr>,
                  p\<lparr>loader_calls := Suc (loader_calls p)\<rparr>))"

definition get_ats_scorer :: "library \<Rightarrow> process \<Rightarrow> ATSScorer \<times> process" where
  "get_ats_scorer lib p =
     (case ats_scorer p of
        None \<Rightarrow> (let (scorer, p') = initialize_model lib p
                 in (scorer, p'\<lparr>ats_scorer := Some scorer\<rparr>))
      | Some scorer \<Rightarrow> (scorer, p))"

definition basic_ats_score :: "library \<Rightarrow> ustr \<Rightarrow> ustr \<Rightarrow> pyval" where
  "basic_ats_score lib resume_text job_description =
     (let resume_words = set (split_ws (lower resume_text));
          job_words = set (split_ws (lower job_description));
          common_words = resume_words \<inter> job_words;
          match_score = (if job_words = {} then 0
                         else real (card common_words) / real (card job_words) * 100)
      in PDict
        [(''ats_score'', PFloat (match_score * 0.8)),
         (''format_analysis'', PDict
            [(''score'', PInt 50),
             (''issues'', PList [PStr (U ''Basic analysis only'')]),
             (''suggestions'',
                PList [PStr (U ''Try again later for detailed format analysis'')])]),
         (''content_analysis'', PDict
            [(''keyword_match'', PInt (int (card common_words))),
             (''missing_keywords'',
                PList (map PStr (set_order lib (job_words - resume_words)))),
             (''suggestions'',
                PList [PStr (U ''Add missing keywords to improve ATS score'')])])])"

definition analyze_format :: "library \<Rightarrow> ustr \<Rightarrow> pyval" where
  "analyze_format lib resume_text =
     (let sections = [U ''education'', U ''experience'', U ''skills'', U ''projects''];
          found_sections = filter (\<lambda>section. contains (lower resume_text) section) sections;
          score = real (length found_sections) / real (length sections) * 100;
          issues = (if length found_sections < length sections
             then [PStr (U ''Missing sections: ''
                     @ join (U '', '') (set_order lib (set sections - set found_sections)))]
             else [])
      in PDict
        [(''score'', PFloat score),
         (''issues'', PList issues),
         (''suggestions'', PList
            [PStr (U ''Ensure all major sections are present''),
             PStr (U ''Use consistent formatting throughout''),
             PStr (U ''Include clear section headers'')])])"

definition analyze_content :: "library \<Rightarrow> ustr \<Rightarrow> ustr \<Rightarrow> pyval" where
  "analyze_content lib resume_text job_description =
     (let resume_words = set (split_ws (lower resume_text));
          job_words = set (split_ws (lower job_description));
          matching_keywords = resume_words \<inter> job_words;
          missing_keywords = job_words - resume_words;
          suggestions = (if missing_keywords = {} then []
             else [PStr (U ''Add these keywords: ''
                     @ join (U '', '') (take 5 (set_order lib missing_keywords)))])
      in PDict
        [(''keyword_match'', PInt (int (card matching_keywords))),
         (''missing_keywords'', PList (map PStr (set_order lib missing_keywords))),
         (''suggestions'', PList suggestions)])"

text \<open>The \<^verbatim>\<open>try\<close> block of \<^verbatim>\<open>ATSScorer.calculate_ats_score\<close>. \<^verbatim>\<open>self.model.encode\<close> on
  \<^verbatim>\<open>None\<close> raises \<^verbatim>\<open>AttributeError\<close>; unpacking anything but two embeddings raises
  \<^verbatim>\<open>ValueError\<close>.\<close>

definition embedding_score :: "library \<Rightarrow> ATSScorer \<Rightarrow> ustr \<Rightarrow> ustr \<Rightarrow> exn + pyval" where
  "embedding_score lib self resume_text job_description =
     (case model self of
        None \<Rightarrow> Inl (AttributeError ''encode'')
      | Some m \<Rightarrow>
          bind_exn (encode m [resume_text, job_description]) (\<lambda>embeddings.
            case embeddings of
              [resume_embedding, job_embedding] \<Rightarrow>
                bind_exn (cosine_similarity lib resume_embedding job_embedding) (\<lambda>similarity.
                  Inr (PDict
                    [(''ats_score'', PFloat (similarity * 100)),
                     (''format_analysis'', analyze_format lib resume_text),
                     (''content_analysis'', analyze_content lib resume_text job_description)]))
            | _ \<Rightarrow> Inl (ValueError ''unpack'')))"

text \<open>The method \<^verbatim>\<open>ATSScorer.calculate_ats_score\<close>.\<close>

definition ATSScorer_calculate_ats_score ::
    "library \<Rightarrow> ATSScorer \<Rightarrow> ustr \<Rightarrow> ustr \<Rightarrow> pyval" where
  "ATSScorer_calculate_ats_score lib self resume_text job_description =
     (if initialized self then
        (case embedding_score lib self resume_text job_description of
           Inl e \<Rightarrow> basic_ats_score lib resume_text job_description
         | Inr result \<Rightarrow> result)
      else basic_ats_score lib resume_text job_description)"

text \<open>The \<^verbatim>\<open>try\<close> block of the module's \<^verbatim>\<open>calculate_ats_score\<close>, given the scorer.\<close>

definition analysis_body :: "library \<Rightarrow> ATSScorer \<Rightarrow> ustr \<Rightarrow> ustr \<Rightarrow> exn + pyval" where
  "analysis_body lib scorer resume_text job_description =
     (let result = ATSScorer_calculate_ats_score lib scorer resume_text job_description in
      bind_exn (identify_strengths module_namespace resume_text job_description) (\<lambda>strengths.
      bind_exn (identify_weaknesses module_namespace resume_text job_description) (\<lambda>weaknesses.
      bind_exn (suggest_improvements module_namespace resume_text job_description)
        (\<lambda>improvements.
      dict_update result
        [(''strengths'', PList (map PStr strengths)),
         (''weaknesses'', PList (map PStr weaknesses)),
         (''improvements'', PList (map PStr improvements))]))))"

definition error_result :: pyval where
  "error_result = PDict
     [(''ats_score'', PInt 0),
      (''format_analysis'',
         PDict [(''score'', PInt 0), (''issues'', PList []), (''suggestions'', PList [])]),
      (''content_analysis'',
         PDict [(''keyword_match'', PInt 0), (''missing_keywords'', PList []),
                (''suggestions'', PList [])]),
      (''strengths'', PList []),
      (''weaknesses'', PList []),
      (''improvements'', PList [])]"

text \<open>The module's \<^verbatim>\<open>calculate_ats_score\<close>: the result and the process after the call.\<close>

definition calculate_ats_score ::
    "library \<Rightarrow> process \<Rightarrow> ustr \<Rightarrow> ustr \<Rightarrow> pyval \<times> process" where
  "calculate_ats_score lib p resume_text job_description =
     (let (scorer, p') = get_ats_scorer lib p
      in (case analysis_body lib scorer resume_text job_description of
            Inl e \<Rightarrow> error_result
          | Inr result \<Rightarrow> result, p'))"

text \<open>A run of calls of \<^verbatim>\<open>calculate_ats_score\<close> in one process: the results in order and
  the process at the end.\<close>

fun calls :: "library \<Rightarrow> process \<Rightarrow> (ustr \<times> ustr) list \<Rightarrow> pyval list \<times> process" where
  "calls lib p [] = ([], p)"
| "calls lib p ((resume_text, job_description) # rest) =
     (let (r, p') = calculate_ats_score lib p resume_text job_description;
          (rs, p'') = calls lib p' rest
      in (r # rs, p''))"

subsection \<open>Notions and inputs the statements use\<close>

text \<open>What a call of \<^verbatim>\<open>calculate_ats_score\<close> returns on the Degraded path: the dictionary
  of \<^verbatim>\<open>_basic_ats_score\<close>, updated with three empty insight lists.\<close>

definition degraded_result :: "library \<Rightarrow> ustr \<Rightarrow> ustr \<Rightarrow> pyval" where
  "degraded_result lib resume_text job_description =
     (case dict_update (basic_ats_score lib resume_text job_description)
             [(''strengths'', PList []), (''weaknesses'', PList []),
              (''improvements'', PList [])] of
        Inl e \<Rightarrow> error_result
      | Inr result \<Rightarrow> result)"

text \<open>The sub-words of a keyword that are longer than three characters, and the test of
  the first tier for a keyword with a space: all of them occur in the cleaned resume,
  and their first occurrences start less than 50 characters apart.\<close>

definition long_parts :: "ustr \<Rightarrow> ustr list" where
  "long_parts kw = filter (\<lambda>part. 3 < length part) (split_ws kw)"

definition present_within_50 :: "ustr \<Rightarrow> ustr \<Rightarrow> bool" where
  "present_within_50 clean_resume kw =
     (list_all (\<lambda>part. contains clean_resume part) (long_parts kw)
      \<and> Max (set (map (\<lambda>part. find_str clean_resume part) (long_parts kw)))
          - Min (set (map (\<lambda>part. find_str clean_resume part) (long_parts kw))) < 50)"

text \<open>Three providers: one whose loader always raises, one whose loader raises at the
  first call and would return a model from the second call on, and one whose model
  loads but raises in \<^verbatim>\<open>encode\<close>.\<close>

definition unavailable_library :: library where
  "unavailable_library =
     \<lparr>get_sentence_transformer = (\<lambda>n. Inl (LibraryError ''model not found'')),
      cosine_similarity = (\<lambda>a b. Inr 1),
      set_order = sorted_list_of_set\<rparr>"

definition flaky_library :: library where
  "flaky_library =
     \<lparr>get_sentence_transformer =
        (\<lambda>n. if n = 0 then Inl (LibraryError ''model not found'')
             else Inr (Some \<lparr>encode = (\<lambda>texts. Inr (map (\<lambda>t. [1]) texts))\<rparr>)),
      cosine_similarity = (\<lambda>a b. Inr 1),
      set_order = sorted_list_of_set\<rparr>"

definition broken_encoder_library :: library where
  "broken_encoder_library =
     \<lparr>get_sentence_transformer =
        (\<lambda>n. Inr (Some \<lparr>encode = (\<lambda>texts. Inl (LibraryError ''out of memory''))\<rparr>)),
      cosine_similarity = (\<lambda>a b. Inr 1),
      set_order = sorted_list_of_set\<rparr>"

text \<open>A resume in which the two words of the keyword \<^verbatim>\<open>data science\<close> stand 83
  characters apart.\<close>

definition finance_resume :: ustr where
  "finance_resume = U ''data pipelines, dashboards and reports for the finance and operations teams; applied science''"

text \<open>A resume in which the words \<^verbatim>\<open>learning\<close> and \<^verbatim>\<open>machine\<close> start 21 characters
  apart.\<close>

definition ml_resume :: ustr where
  "ml_resume = U ''experience with learning systems and machine control, python backend developer''"

section \<open>Properties\<close>

subsection \<open>Evaluation rules and auxiliary facts\<close>

lemma bind_exn_simps [simp]:
  "bind_exn (Inl e) f = Inl e" "bind_exn (Inr x) f = f x"
  by (simp_all add: bind_exn_def)

lemmas ev = findall_count_def re_search_def U_def AZ_def az_def digit_def isspace_def run_def
  cls_match_def lit_match_def lower_def lower_cp_def upper_cp_def is_upper_cp_def
  is_lower_cp_def one_of_def not_newline_def word_boundary_def word_char_def count_str_def
  starts_with_def slice_def contains_def find_str_def split_ws_def strip_def

text \<open>The first iteration of the loop of \<^verbatim>\<open>check_sections\<close> reads \<^verbatim>\<open>keyword\<close> before any
  assignment to it, whatever the text is.\<close>

lemma check_sections_raises:
  "check_sections resume_text = Inl (UnboundLocalError ''keyword'')"
  by (simp add: check_sections_def sections_def local_value_def)

lemma ats_score_outcome:
  "ats_score sm resume_text job_keywords =
     (if resume_text = [] \<or> job_keywords = [] then Inr 0
      else Inl (UnboundLocalError ''keyword''))"
  by (simp add: ats_score_def check_sections_raises Let_def)

text \<open>The helper \<^verbatim>\<open>_check_section_headers\<close>, where \<^verbatim>\<open>keyword\<close> is bound before the
  patterns are built, finds the header of the spec's example.\<close>

lemma check_section_headers_example:
  "check_section_headers (U ''Experience:\<newline>- Built systems'') [U ''experience'']"
  by (simp add: check_section_headers_def header_patterns_def ev upt_rec)

lemma module_insights_empty:
  "identify_strengths module_namespace rt jd = Inr []"
  "identify_weaknesses module_namespace rt jd = Inr []"
  "suggest_improvements module_namespace rt jd = Inr []"
  by (simp_all add: identify_strengths_def identify_weaknesses_def suggest_improvements_def
      strengths_body_def weaknesses_body_def improvements_body_def module_namespace_def
      call_def)

lemma basic_ats_score_dict:
  "\<exists>fa ca. basic_ats_score lib rt jd =
     PDict [(''ats_score'', PFloat
              (let resume_words = set (split_ws (lower rt));
                   job_words = set (split_ws (lower jd))
               in if job_words = {} then 0
                  else real (card (resume_words \<inter> job_words)) / real (card job_words)
                         * 100 * 0.8)),
            (''format_analysis'', fa), (''content_analysis'', ca)]"
  by (simp add: basic_ats_score_def Let_def)

lemma degraded_result_items:
  "getitem (degraded_result lib rt jd) ''ats_score'' =
     Some (PFloat
       (let resume_words = set (split_ws (lower rt));
            job_words = set (split_ws (lower jd))
        in if job_words = {} then 0
           else real (card (resume_words \<inter> job_words)) / real (card job_words)
                  * 100 * 0.8))"
  "dict_keys (degraded_result lib rt jd) = [''ats_score'', ''format_analysis'',
     ''content_analysis'', ''strengths'', ''weaknesses'', ''improvements'']"
  using basic_ats_score_dict [of lib rt jd]
  by (auto simp add: degraded_result_def)

lemma analysis_body_degraded:
  assumes "\<not> initialized scorer \<or> (\<exists>e. embedding_score lib scorer rt jd = Inl e)"
  shows "analysis_body lib scorer rt jd = Inr (degraded_result lib rt jd)"
proof -
  have "ATSScorer_calculate_ats_score lib scorer rt jd = basic_ats_score lib rt jd"
    using assms by (auto simp add: ATSScorer_calculate_ats_score_def)
  moreover obtain d where "basic_ats_score lib rt jd = PDict d"
    using basic_ats_score_dict [of lib rt jd] by auto
  ultimately show ?thesis
    by (simp add: analysis_body_def module_insights_empty degraded_result_def)
qed

lemma calculate_uninitialized:
  assumes "ats_scorer q = Some s" and "\<not> initialized s"
  shows "calculate_ats_score lib q rt jd = (degraded_result lib rt jd, q)"
  using assms by (simp add: calculate_ats_score_def get_ats_scorer_def analysis_body_degraded)

lemma calls_uninitialized:
  assumes "ats_scorer q = Some s" and "\<not> initialized s"
  shows "calls lib q cs = (map (\<lambda>(rt, jd). degraded_result lib rt jd) cs, q)"
  using assms by (induction cs) (auto simp add: calculate_uninitialized)

lemma get_ats_scorer_loader_calls:
  "loader_calls (snd (get_ats_scorer lib q))
     = (if ats_scorer q = None then Suc (loader_calls q) else loader_calls q)"
  by (auto simp add: get_ats_scorer_def initialize_model_def split: option.splits sum.splits)

lemma contains_find: "contains s sub \<Longrightarrow> find_str s sub \<noteq> - 1"
  by (auto simp add: contains_def find_str_def split: option.splits)

lemma finance_resume_clean:
  "clean finance_resume = U ''data pipelines dashboards and reports for the finance and operations teams applied science''"
  by (simp add: finance_resume_def ev clean_def)

lemma data_science_parts: "split_ws (U ''data science'') = [U ''data'', U ''science'']"
  by (simp add: ev)

lemma data_science_weight: "base_weight (U ''data science'') = 1"
  by (simp add: base_weight_def technical_terms_def framework_terms_def cloud_terms_def ev)

text \<open>The two tiers of the loop body for one keyword with a space, given its weight.\<close>

lemma match_keyword_tiers:
  assumes "contains kw (U '' '')"
    and "\<not> contains (U '' '' @ clean_resume @ U '' '') (U '' '' @ kw @ U '' '')"
    and "long_parts kw \<noteq> []"
  shows "(present_within_50 clean_resume kw
            \<longrightarrow> match_keyword sm clean_resume kw weight = Inr (Some (weight * 0.9)))
       \<and> (\<not> present_within_50 clean_resume kw \<and> 2 < length (split_ws kw)
          \<and> real (length (split_ws kw)) * 0.7
               \<le> real (length (filter (\<lambda>part. contains clean_resume part) (long_parts kw)))
            \<longrightarrow> match_keyword sm clean_resume kw weight = Inr (Some (weight * 0.7)))"
proof -
  have pos: "list_all (\<lambda>part. contains clean_resume part) (long_parts kw) \<Longrightarrow>
        list_all (\<lambda>pos. pos \<noteq> - 1) (map (\<lambda>part. find_str clean_resume part) (long_parts kw))"
    by (induction "long_parts kw") (auto simp add: list_all_iff contains_find)
  have cnt: "filter (\<lambda>part. contains clean_resume part \<and> 3 < length part) (split_ws kw)
        = filter (\<lambda>part. contains clean_resume part) (long_parts kw)"
    by (simp add: long_parts_def conj_commute)
  show ?thesis
    using assms pos
    by (auto simp add: match_keyword_def contextual_match_def Let_def present_within_50_def cnt
          long_parts_def [symmetric])
qed

text \<open>The dictionary \<^verbatim>\<open>keyword_importance\<close> has one item per lower-cased keyword, whose
  value is the weight of that keyword; the matching loop stores the value of the loop
  body under each key.\<close>

lemma lower_cp_idem: "lower_cp (lower_cp c) = lower_cp c"
  by (auto simp add: lower_cp_def is_upper_cp_def)

lemma lower_idem: "lower (lower s) = lower s"
  by (simp add: lower_def lower_cp_idem)

lemma base_weight_lower: "base_weight (lower kw) = base_weight kw"
  by (simp add: base_weight_def lower_idem)

lemma base_weight_pos: "1 \<le> base_weight kw"
  by (simp add: base_weight_def)

lemma dict_set_keys: "fst ` set (dict_set d k v) = insert k (fst ` set d)"
  by (induction d k v rule: dict_set.induct) auto

lemma dict_set_distinct: "distinct (map fst d) \<Longrightarrow> distinct (map fst (dict_set d k v))"
proof (induction d k v rule: dict_set.induct)
  case (1 k v)
  then show ?case by simp
next
  case (2 k' v' d k v)
  then show ?case
    using dict_set_keys [of d k v] by (auto simp add: image_iff)
qed

lemma map_of_dict_set: "map_of (dict_set d k v) = (map_of d)(k \<mapsto> v)"
  by (induction d k v rule: dict_set.induct) auto

lemma importance_fold:
  assumes "distinct (map fst d)" and "\<forall>(k, w) \<in> set d. w = base_weight k"
  shows "distinct (map fst (foldl (\<lambda>d kw. dict_set d (lower kw) (base_weight kw)) d kws))
    \<and> (\<forall>(k, w) \<in> set (foldl (\<lambda>d kw. dict_set d (lower kw) (base_weight kw)) d kws).
          w = base_weight k)
    \<and> fst ` set (foldl (\<lambda>d kw. dict_set d (lower kw) (base_weight kw)) d kws)
        = fst ` set d \<union> lower ` set kws"
  using assms
proof (induction kws arbitrary: d)
  case Nil
  then show ?case by simp
next
  case (Cons kw kws)
  let ?d = "dict_set d (lower kw) (base_weight kw)"
  have d1: "distinct (map fst ?d)"
    using Cons.prems(1) by (rule dict_set_distinct)
  have d2: "\<forall>(k, w) \<in> set ?d. w = base_weight k"
  proof (clarify)
    fix k w assume kw_in: "(k, w) \<in> set ?d"
    then have "map_of ?d k = Some w"
      using d1 by simp
    then have "((map_of d)(lower kw \<mapsto> base_weight kw)) k = Some w"
      by (simp add: map_of_dict_set)
    then show "w = base_weight k"
      using Cons.prems(2) by (auto simp add: base_weight_lower split: if_splits dest: map_of_SomeD)
  qed
  from Cons.IH [OF d1 d2] show ?case
    by (auto simp add: dict_set_keys)
qed

lemma keyword_importance_facts:
  "distinct (map fst (keyword_importance kws))"
  "(k, w) \<in> set (keyword_importance kws) \<Longrightarrow> w = base_weight k"
  "fst ` set (keyword_importance kws) = lower ` set kws"
  using importance_fold [of "[]" kws] by (auto simp add: keyword_importance_def)

lemma keyword_importance_member:
  assumes "kw \<in> set kws"
  shows "(lower kw, base_weight kw) \<in> set (keyword_importance kws)"
proof -
  have "lower kw \<in> fst ` set (keyword_importance kws)"
    using assms by (simp add: keyword_importance_facts(3))
  then obtain w where w: "(lower kw, w) \<in> set (keyword_importance kws)"
    by auto
  then have "w = base_weight (lower kw)"
    by (rule keyword_importance_facts(2))
  with w show ?thesis
    by (simp add: base_weight_lower)
qed

lemma member_le_sum_list_real:
  fixes xs :: "real list"
  assumes "x \<in> set xs" and "\<forall>y \<in> set xs. 0 \<le> y"
  shows "x \<le> sum_list xs"
  using assms
proof (induction xs)
  case Nil
  then show ?case by simp
next
  case (Cons a xs)
  have "0 \<le> sum_list xs"
    using Cons.prems(2) by (simp add: sum_list_nonneg)
  with Cons show ?case
    by (cases "x = a") (auto simp add: add_increasing)
qed

lemma total_weight_pos:
  assumes "kws \<noteq> []"
  shows "0 < sum_list (map snd (keyword_importance kws))"
proof -
  obtain kw where "kw \<in> set kws"
    using assms by (cases kws) auto
  then have m: "(lower kw, base_weight kw) \<in> set (keyword_importance kws)"
    by (rule keyword_importance_member)
  have nonneg: "\<And>x. x \<in> set (map snd (keyword_importance kws)) \<Longrightarrow> 0 \<le> x"
    using keyword_importance_facts(2) [of _ _ kws] base_weight_pos
    by (force simp add: order_trans [OF zero_le_one])
  have "base_weight kw \<in> set (map snd (keyword_importance kws))"
    using m by force
  then have "base_weight kw \<le> sum_list (map snd (keyword_importance kws))"
    using nonneg by (intro member_le_sum_list_real) auto
  with base_weight_pos [of kw] show ?thesis
    by linarith
qed

text \<open>The body of the matching loop raises only through \<^verbatim>\<open>max\<close> of an empty list.\<close>

lemma match_keyword_raises:
  assumes "match_keyword sm cr k w = Inl e"
  shows "contains k (U '' '') \<and> \<not> contains (U '' '' @ cr @ U '' '') (U '' '' @ k @ U '' '')
     \<and> long_parts k = []"
  using assms
  by (auto simp add: match_keyword_def contextual_match_def Let_def long_parts_def bind_exn_def
      split: if_splits sum.splits option.splits)

lemma match_keywords_total:
  assumes "distinct (map fst items)"
    and "\<forall>(k, w) \<in> set items. \<exists>m. match_keyword sm cr k w = Inr m"
  shows "\<exists>matches. match_keywords sm cr items acc = Inr matches
     \<and> (\<forall>k. k \<notin> fst ` set items \<longrightarrow> map_of matches k = map_of acc k)
     \<and> (\<forall>(k, w) \<in> set items. \<forall>v. match_keyword sm cr k w = Inr (Some v)
            \<longrightarrow> map_of matches k = Some v)"
  using assms
proof (induction items arbitrary: acc)
  case Nil
  then show ?case by simp
next
  case (Cons item items)
  obtain k0 w0 where item: "item = (k0, w0)"
    by (cases item)
  obtain m where m: "match_keyword sm cr k0 w0 = Inr m"
    using Cons.prems(2) item by auto
  let ?acc = "case m of None \<Rightarrow> acc | Some v \<Rightarrow> dict_set acc k0 v"
  have d: "distinct (map fst items)" and fresh: "k0 \<notin> fst ` set items"
    using Cons.prems(1) item by (auto simp add: image_iff)
  have t: "\<forall>(k, w) \<in> set items. \<exists>m. match_keyword sm cr k w = Inr m"
    using Cons.prems(2) by auto
  from Cons.IH [OF d t, of ?acc] obtain matches where
    run: "match_keywords sm cr items ?acc = Inr matches"
    and keep: "\<forall>k. k \<notin> fst ` set items \<longrightarrow> map_of matches k = map_of ?acc k"
    and hit: "\<forall>(k, w) \<in> set items. \<forall>v. match_keyword sm cr k w = Inr (Some v)
            \<longrightarrow> map_of matches k = Some v"
    by blast
  have r: "match_keywords sm cr (item # items) acc = Inr matches"
    using run by (simp add: item m)
  have a: "\<forall>k. k \<notin> fst ` set (item # items) \<longrightarrow> map_of matches k = map_of acc k"
    using keep by (auto simp add: item map_of_dict_set split: option.splits)
  have b0: "\<forall>v. match_keyword sm cr k0 w0 = Inr (Some v) \<longrightarrow> map_of matches k0 = Some v"
    using keep fresh m by (auto simp add: map_of_dict_set)
  have b: "\<forall>(k, w) \<in> set (item # items). \<forall>v. match_keyword sm cr k w = Inr (Some v)
            \<longrightarrow> map_of matches k = Some v"
    using hit b0 by (auto simp add: item)
  from r a b show ?case by blast
qed

lemma ml_resume_clean:
  "clean ml_resume = U ''experience with learning systems and machine control python backend developer''"
  by (simp add: ml_resume_def ev clean_def)

text \<open>No header pattern of \<^verbatim>\<open>check_formatting\<close> matches in a lower-cased text: each asks
  for a character of \<^verbatim>\<open>[A-Z]\<close>.\<close>

lemma lower_cp_not_AZ: "\<not> AZ (lower_cp c)"
  by (simp add: AZ_def lower_cp_def is_upper_cp_def)

lemma ends_Cls_AZ_lower: "ends False (lower t) (Cls AZ) i = []"
  by (auto simp add: cls_match_def lower_def lower_cp_not_AZ)

lemma ends_AZ_lower: "ends False (lower t) (Seq (Cls AZ) r) i = []"
  by (simp add: ends_Cls_AZ_lower del: ends.simps(2))

lemma concat_map_Nil: "concat (map (\<lambda>x. []) xs) = []"
  by (induction xs) simp_all

lemma ends_Seq_empty:
  assumes "\<And>j. ends ic s r2 j = []"
  shows "ends ic s (Seq r1 r2) i = []"
  by (simp add: assms concat_map_Nil)

lemma findall_from_none:
  assumes "\<And>i. ends ic s r i = []"
  shows "findall_from ic r s lo positions = 0"
  by (induction positions arbitrary: lo) (simp_all add: assms)

lemma header_patterns_need_upper_case:
  assumes "pattern \<in> set format_header_patterns"
  shows "ends False (lower t) pattern i = []"
proof -
  have "pattern = seqs [Lit [10], Cls AZ, Plus (\<lambda>c. AZ c \<or> isspace c), Lit (U '':'')]
      \<or> pattern = seqs [Lit [10], Cls AZ, Plus (\<lambda>c. AZ c \<or> isspace c), Lit [10]]
      \<or> pattern = seqs [Lit [10], Cls AZ, Plus az, Cls isspace, Cls AZ, Plus az, Lit (U '':'')]
      \<or> pattern = seqs [Lit [10], Star isspace, Plus digit, Lit (U ''.''), Star isspace, Cls AZ,
                         Plus az]"
    using assms by (simp add: format_header_patterns_def)
  then show ?thesis
    by (auto simp only: seqs.simps intro!: ends_Seq_empty ends_AZ_lower)
qed

lemma headers_count_lower:
  "sum_list (map (\<lambda>pattern. findall_count False pattern (lower t)) format_header_patterns) = 0"
  by (simp add: findall_count_def findall_from_none header_patterns_need_upper_case)

subsection \<open>The heuristic path\<close>

text \<open>
  Claim C1 (``for every resume text and every keyword list \<^verbatim>\<open>ats_score\<close> returns a float in
  [0, 100], rounded to 2 decimals''). The code does not return at the spec's own example
  of a resume: \<^verbatim>\<open>check_sections\<close> raises \<^verbatim>\<open>UnboundLocalError\<close> and \<^verbatim>\<open>ats_score\<close> has no
  handler.
\<close>

theorem ats_score_raises_on_resume:
  "ats_score sm (U ''Experience:\<newline>- Built systems in Python'') [U ''python'']
     = Inl (UnboundLocalError ''keyword'')"
  by (simp add: ats_score_outcome U_def)

text \<open>
  Claim C2 (``neither \<^verbatim>\<open>ats_score\<close> nor \<^verbatim>\<open>calculate_ats_score\<close> raises an exception to its
  caller''). \<^verbatim>\<open>ats_score\<close> returns 0.0 when the text or the keyword list is empty and
  raises \<^verbatim>\<open>UnboundLocalError\<close> in every other case.
\<close>

theorem ats_score_raises_unless_empty:
  "ats_score sm resume_text job_keywords =
     (if resume_text = [] \<or> job_keywords = [] then Inr 0
      else Inl (UnboundLocalError ''keyword''))"
  by (simp add: ats_score_def check_sections_raises Let_def)

text \<open>
  Claim C3 (``\<^verbatim>\<open>ats_score\<close> returns exactly 0.0 whenever the resume text or the keyword list
  is empty; for non-empty inputs it returns the rounded weighted sum of the four component
  scores''). The first half holds; at a non-empty input the weighted sum is never reached.
\<close>

theorem ats_score_zero_or_raises:
  "ats_score sm [] job_keywords = Inr 0
   \<and> ats_score sm resume_text [] = Inr 0
   \<and> ats_score sm (U ''Python developer'') [U ''python'', U ''sql'']
       = Inl (UnboundLocalError ''keyword'')"
  by (simp add: ats_score_outcome U_def)

text \<open>
  Claim C5 (``within \<^verbatim>\<open>ats_score\<close> the formatting analyzer operates on the raw resume text,
  not a lower-cased copy''). \<^verbatim>\<open>ats_score\<close> hands \<^verbatim>\<open>check_formatting\<close> the lower-cased
  text. On such a text the analyzer counts no header at all, so its score is at most 0.65;
  on the text below it gives 0.15 where the raw text scores 0.30.
\<close>

theorem formatting_after_lower:
  "sum_list (map (\<lambda>pattern. findall_count False pattern (lower resume_text))
               format_header_patterns) = 0
   \<and> check_formatting (lower resume_text) \<le> 0.65
   \<and> check_formatting (U ''\<newline>SKILLS:\<newline>- Python'') = 0.3
   \<and> check_formatting (lower (U ''\<newline>SKILLS:\<newline>- Python'')) = 0.15"
proof -
  have bound: "check_formatting (lower resume_text) \<le> 0.65"
    unfolding check_formatting_def Let_def headers_count_lower
    by (simp add: min_def)
  have raw: "check_formatting (U ''\<newline>SKILLS:\<newline>- Python'') = 0.3"
    by (simp add: check_formatting_def format_header_patterns_def date_patterns_def
          contact_patterns_def ev upt_rec Let_def)
  have low: "check_formatting (lower (U ''\<newline>SKILLS:\<newline>- Python'')) = 0.15"
    by (simp add: check_formatting_def format_header_patterns_def date_patterns_def
          contact_patterns_def ev upt_rec Let_def)
  from bound raw low show ?thesis
    by (simp add: headers_count_lower)
qed

subsection \<open>The keyword matcher's tiers for a keyword with a space\<close>

text \<open>
  Claim C6, as stated, fails in three ways.
  \<^item> The two sub-words of \<^verbatim>\<open>data science\<close> both occur in the cleaned resume, 83 characters
    apart, there is no exact match, and the keyword gets no entry in \<^verbatim>\<open>matches\<close>: the
    0.7 tier asks for more than two sub-words.
  \<^item> \<^verbatim>\<open>big data science\<close> has three sub-words, and both of those longer than three
    characters occur (100 percent of them), but it gets no entry either: the tier compares
    their number, 2, with 70 percent of the number of all sub-words, 2.1.
  \<^item> \<^verbatim>\<open>ui ux\<close> has no sub-word longer than three characters; the loop body raises
    \<^verbatim>\<open>ValueError\<close> for it, and so does \<^verbatim>\<open>check_keywords\<close> for the list
    \<^verbatim>\<open>['machine learning', 'ui ux']\<close>, although \<^verbatim>\<open>machine learning\<close> meets the 0.9 tier.
\<close>

theorem keyword_tiers_counterexample:
  "contains (U ''data science'') (U '' '')
   \<and> \<not> contains (U '' '' @ clean finance_resume @ U '' '') (U '' '' @ U ''data science'' @ U '' '')
   \<and> list_all (\<lambda>part. contains (clean finance_resume) part) (split_ws (U ''data science''))
   \<and> match_keyword (\<lambda>a b. 0) (clean finance_resume) (U ''data science'')
        (base_weight (U ''data science'')) = Inr None
   \<and> check_keywords (\<lambda>a b. 0) finance_resume [U ''data science''] = Inr 0
   \<and> contains (U ''big data science'') (U '' '')
   \<and> \<not> contains (U '' '' @ clean finance_resume @ U '' '')
         (U '' '' @ U ''big data science'' @ U '' '')
   \<and> length (split_ws (U ''big data science'')) = 3
   \<and> long_parts (U ''big data science'') = [U ''data'', U ''science'']
   \<and> list_all (\<lambda>part. contains (clean finance_resume) part)
        (long_parts (U ''big data science''))
   \<and> match_keyword (\<lambda>a b. 0) (clean finance_resume) (U ''big data science'')
        (base_weight (U ''big data science'')) = Inr None
   \<and> check_keywords (\<lambda>a b. 0) finance_resume [U ''big data science''] = Inr 0
   \<and> contains (U ''ui ux'') (U '' '')
   \<and> \<not> contains (U '' '' @ clean ml_resume @ U '' '') (U '' '' @ U ''ui ux'' @ U '' '')
   \<and> long_parts (U ''ui ux'') = []
   \<and> match_keyword (\<lambda>a b. 0) (clean ml_resume) (U ''ui ux'') (base_weight (U ''ui ux''))
       = Inl (ValueError ''max() arg is an empty sequence'')
   \<and> present_within_50 (clean ml_resume) (U ''machine learning'')
   \<and> check_keywords (\<lambda>a b. 0) ml_resume [U ''machine learning'', U ''ui ux'']
       = Inl (ValueError ''max() arg is an empty sequence'')"
proof -
  let ?cr = "U ''data pipelines dashboards and reports for the finance and operations teams applied science''"
  let ?k = "U ''data science''"
  let ?b = "U ''big data science''"
  have multi: "contains ?k (U '' '')" "contains ?b (U '' '')"
    by (simp_all add: ev)
  have no_exact: "\<not> contains (U '' '' @ ?cr @ U '' '') (U '' '' @ ?k @ U '' '')"
    "\<not> contains (U '' '' @ ?cr @ U '' '') (U '' '' @ ?b @ U '' '')"
    by (simp_all add: ev)
  have present: "contains ?cr (U ''data'')" "contains ?cr (U ''science'')"
    "\<not> contains ?cr (U ''big'')"
    by (simp_all add: ev)
  have positions: "find_str ?cr (U ''data'') = 0" "find_str ?cr (U ''science'') = 83"
    by (simp_all add: ev)
  have lens: "length (U ''data'') = 4" "length (U ''science'') = 7" "length (U ''big'') = 3"
    "length ?k = 12" "length ?b = 16"
    by (simp_all add: U_def)
  have parts: "split_ws ?b = [U ''big'', U ''data'', U ''science'']"
    by (simp add: ev)
  have lp: "long_parts ?b = [U ''data'', U ''science'']"
    by (simp add: long_parts_def parts lens)
  have ctx: "contextual_match ?cr ?k 1 = Inr None"
    by (simp add: contextual_match_def data_science_parts present positions lens)
  have m: "match_keyword (\<lambda>a b. 0) ?cr ?k 1 = Inr None"
    using multi no_exact by (simp add: match_keyword_def ctx data_science_parts)
  have ctxb: "contextual_match ?cr ?b 1 = Inr None"
    by (simp add: contextual_match_def parts present positions lens)
  have mb: "match_keyword (\<lambda>a b. 0) ?cr ?b 1 = Inr None"
    using multi no_exact by (simp add: match_keyword_def ctxb parts)
  have low: "lower ?k = ?k" "lower ?b = ?b"
    by (simp_all add: ev)
  have wb: "base_weight ?b = 1"
    unfolding base_weight_def low
    by (simp add: technical_terms_def framework_terms_def cloud_terms_def ev)
  have ck: "check_keywords (\<lambda>a b. 0) finance_resume [?k] = Inr 0"
    by (simp add: check_keywords_def keyword_importance_def low data_science_weight
          finance_resume_clean m context_bonus_def)
  have ckb: "check_keywords (\<lambda>a b. 0) finance_resume [?b] = Inr 0"
    by (simp add: check_keywords_def keyword_importance_def low wb
          finance_resume_clean mb context_bonus_def)
  let ?mr = "U ''experience with learning systems and machine control python backend developer''"
  let ?u = "U ''ui ux''"
  let ?ml = "U ''machine learning''"
  have u1: "contains ?u (U '' '')" "contains ?ml (U '' '')" by (simp_all add: ev)
  have u2: "\<not> contains (U '' '' @ ?mr @ U '' '') (U '' '' @ ?u @ U '' '')"
    "\<not> contains (U '' '' @ ?mr @ U '' '') (U '' '' @ ?ml @ U '' '')"
    by (simp_all add: ev)
  have u3: "split_ws ?u = [U ''ui'', U ''ux'']" "split_ws ?ml = [U ''machine'', U ''learning'']"
    by (simp_all add: ev)
  have u4: "long_parts ?u = []" "long_parts ?ml = [U ''machine'', U ''learning'']"
    by (simp_all add: long_parts_def u3) (simp_all add: U_def)
  have uctx: "contextual_match ?mr ?u w = Inl (ValueError ''max() arg is an empty sequence'')"
    for w
    using u4(1) by (simp add: contextual_match_def long_parts_def)
  have um: "match_keyword (\<lambda>a b. 0) ?mr ?u w = Inl (ValueError ''max() arg is an empty sequence'')"
    for w
    using u1 u2 by (simp add: match_keyword_def uctx)
  have c1: "contains ?mr (U ''machine'')" "contains ?mr (U ''learning'')" by (simp_all add: ev)
  have f1: "find_str ?mr (U ''machine'') = 37" "find_str ?mr (U ''learning'') = 16"
    by (simp_all add: ev)
  have p1: "present_within_50 ?mr ?ml" by (simp add: present_within_50_def u4 c1 f1)
  have lens2: "length (U ''machine'') = 7" "length (U ''learning'') = 8"
    by (simp_all add: U_def)
  have mlctx: "contextual_match ?mr ?ml w = Inr (Some (w * 0.9))" for w
    by (simp add: contextual_match_def u3 c1 f1 lens2)
  have mlm: "match_keyword (\<lambda>a b. 0) ?mr ?ml w = Inr (Some (w * 0.9))" for w
    using u1 u2 by (simp add: match_keyword_def mlctx)
  have low2: "lower ?u = ?u" "lower ?ml = ?ml" by (simp_all add: ev)
  have neq: "?ml \<noteq> ?u" by (simp add: U_def)
  have cku: "check_keywords (\<lambda>a b. 0) ml_resume [?ml, ?u]
       = Inl (ValueError ''max() arg is an empty sequence'')"
    using neq by (simp add: check_keywords_def keyword_importance_def low2 ml_resume_clean
          mlm um)
  from multi no_exact present m mb ck ckb parts lp u1 u2 u4 um p1 cku show ?thesis
    by (simp add: finance_resume_clean ml_resume_clean data_science_parts data_science_weight wb)
qed

text \<open>
  Claim C6, amended: take a keyword list in which every keyword that contains a space and
  has no exact whole-phrase match has a sub-word longer than three characters. Then the
  matching loop completes, \<^verbatim>\<open>check_keywords\<close> returns the sum of the entries of \<^verbatim>\<open>matches\<close>
  over the sum of the weights, plus the two bonuses, capped at 1, and for every keyword of
  the list that contains a space and has no exact whole-phrase match: (1) if all its
  sub-words longer than three characters occur in the cleaned resume and their first
  occurrences start less than 50 characters apart, its entry in \<^verbatim>\<open>matches\<close> is
  \<open>weight * 0.9\<close>; (2) otherwise, if it has more than two sub-words and the number of its
  sub-words longer than three characters that occur in the cleaned resume is at least 70
  percent of the number of all its sub-words, its entry is \<open>weight * 0.7\<close>. The keyword is
  read in lower case, as the loop does, and \<open>weight\<close> is its importance weight.
\<close>

theorem multi_word_keyword_contribution:
  assumes "kw \<in> set job_keywords"
    and "contains (lower kw) (U '' '')"
    and "\<not> contains (U '' '' @ clean resume_text @ U '' '') (U '' '' @ lower kw @ U '' '')"
    and "\<forall>k \<in> set job_keywords.
           contains (lower k) (U '' '')
           \<and> \<not> contains (U '' '' @ clean resume_text @ U '' '') (U '' '' @ lower k @ U '' '')
           \<longrightarrow> long_parts (lower k) \<noteq> []"
  shows "\<exists>matches.
       match_keywords sm (clean resume_text) (keyword_importance job_keywords) [] = Inr matches
     \<and> check_keywords sm resume_text job_keywords =
         Inr (min 1 (sum_list (map snd matches)
                       / sum_list (map snd (keyword_importance job_keywords))
                     + min 0.3 (real (length matches) / real (max 1 (length job_keywords)) * 0.5)
                     + context_bonus resume_text matches))
     \<and> (present_within_50 (clean resume_text) (lower kw)
          \<longrightarrow> map_of matches (lower kw) = Some (base_weight kw * 0.9))
     \<and> (\<not> present_within_50 (clean resume_text) (lower kw)
          \<and> 2 < length (split_ws (lower kw))
          \<and> real (length (split_ws (lower kw))) * 0.7
               \<le> real (length (filter (\<lambda>part. contains (clean resume_text) part)
                                   (long_parts (lower kw))))
          \<longrightarrow> map_of matches (lower kw) = Some (base_weight kw * 0.7))"
proof -
  let ?cr = "clean resume_text"
  let ?items = "keyword_importance job_keywords"
  have total: "\<forall>(k, w) \<in> set ?items. \<exists>m. match_keyword sm ?cr k w = Inr m"
  proof (clarify)
    fix k w assume "(k, w) \<in> set ?items"
    then have "k \<in> lower ` set job_keywords"
      using keyword_importance_facts(3) [of job_keywords] by force
    then obtain k' where k': "k' \<in> set job_keywords" "k = lower k'"
      by auto
    show "\<exists>m. match_keyword sm ?cr k w = Inr m"
    proof (cases "match_keyword sm ?cr k w")
      case (Inl e)
      from match_keyword_raises [OF this] assms(4) k' show ?thesis
        by auto
    next
      case (Inr m)
      then show ?thesis by simp
    qed
  qed
  from match_keywords_total [OF keyword_importance_facts(1) total, of "[]"]
  obtain matches where
    run: "match_keywords sm ?cr ?items [] = Inr matches"
    and hit: "\<forall>(k, w) \<in> set ?items. \<forall>v. match_keyword sm ?cr k w = Inr (Some v)
            \<longrightarrow> map_of matches k = Some v"
    by blast
  have mem: "(lower kw, base_weight kw) \<in> set ?items"
    using assms(1) by (rule keyword_importance_member)
  have long: "long_parts (lower kw) \<noteq> []"
    using assms by blast
  note tiers = match_keyword_tiers [OF assms(2) assms(3) long, of sm "base_weight kw"]
  have nonempty: "job_keywords \<noteq> []"
    using assms(1) by auto
  have score: "check_keywords sm resume_text job_keywords =
         Inr (min 1 (sum_list (map snd matches)
                       / sum_list (map snd (keyword_importance job_keywords))
                     + min 0.3 (real (length matches) / real (max 1 (length job_keywords)) * 0.5)
                     + context_bonus resume_text matches))"
    using nonempty total_weight_pos [OF nonempty]
    by (simp add: check_keywords_def Let_def run)
  from run score hit mem tiers show ?thesis
    by (intro exI [of _ matches]) auto
qed

theorem multi_word_keyword_contribution_witness:
  "U ''Machine Learning'' \<in> set [U ''Machine Learning'', U ''senior python backend developer'']
   \<and> contains (lower (U ''Machine Learning'')) (U '' '')
   \<and> \<not> contains (U '' '' @ clean ml_resume @ U '' '')
         (U '' '' @ lower (U ''Machine Learning'') @ U '' '')
   \<and> long_parts (lower (U ''Machine Learning'')) = [U ''machine'', U ''learning'']
   \<and> contains (lower (U ''senior python backend developer'')) (U '' '')
   \<and> \<not> contains (U '' '' @ clean ml_resume @ U '' '')
         (U '' '' @ lower (U ''senior python backend developer'') @ U '' '')
   \<and> long_parts (lower (U ''senior python backend developer''))
        = [U ''senior'', U ''python'', U ''backend'', U ''developer'']
   \<and> present_within_50 (clean ml_resume) (lower (U ''Machine Learning''))
   \<and> \<not> present_within_50 (clean ml_resume) (lower (U ''senior python backend developer''))
   \<and> length (filter (\<lambda>part. contains (clean ml_resume) part)
         (long_parts (lower (U ''senior python backend developer'')))) = 3
   \<and> (\<exists>matches.
         match_keywords (\<lambda>a b. 0) (clean ml_resume)
           (keyword_importance [U ''Machine Learning'', U ''senior python backend developer''])
           [] = Inr matches
       \<and> map_of matches (U ''machine learning'') = Some (9 / 10)
       \<and> map_of matches (U ''senior python backend developer'') = Some (21 / 20))"
proof -
  let ?cr = "U ''experience with learning systems and machine control python backend developer''"
  let ?K1 = "U ''Machine Learning''"
  let ?k1 = "U ''machine learning''"
  let ?k2 = "U ''senior python backend developer''"
  let ?kws = "[?K1, ?k2]"
  have low: "lower ?K1 = ?k1" "lower ?k2 = ?k2"
    by (simp_all add: ev)
  have a1: "contains ?k1 (U '' '')" by (simp add: ev)
  have a2: "\<not> contains (U '' '' @ ?cr @ U '' '') (U '' '' @ ?k1 @ U '' '')" by (simp add: ev)
  have s1: "split_ws ?k1 = [U ''machine'', U ''learning'']" by (simp add: ev)
  have l1: "long_parts ?k1 = [U ''machine'', U ''learning'']"
    by (simp add: long_parts_def s1) (simp add: U_def)
  have c1: "contains ?cr (U ''machine'')" "contains ?cr (U ''learning'')" by (simp_all add: ev)
  have f1: "find_str ?cr (U ''machine'') = 37" "find_str ?cr (U ''learning'') = 16"
    by (simp_all add: ev)
  have p1: "present_within_50 ?cr ?k1" by (simp add: present_within_50_def l1 c1 f1)
  have b1: "contains ?k2 (U '' '')" by (simp add: ev)
  have b2: "\<not> contains (U '' '' @ ?cr @ U '' '') (U '' '' @ ?k2 @ U '' '')" by (simp add: ev)
  have s2: "split_ws ?k2 = [U ''senior'', U ''python'', U ''backend'', U ''developer'']"
    by (simp add: ev)
  have l2: "long_parts ?k2 = [U ''senior'', U ''python'', U ''backend'', U ''developer'']"
    by (simp add: long_parts_def s2) (simp add: U_def)
  have c2: "\<not> contains ?cr (U ''senior'')" "contains ?cr (U ''python'')"
    "contains ?cr (U ''backend'')" "contains ?cr (U ''developer'')" by (simp_all add: ev)
  have p2: "\<not> present_within_50 ?cr ?k2" by (simp add: present_within_50_def l2 c2)
  have n2: "length (filter (\<lambda>part. contains ?cr part) (long_parts ?k2)) = 3"
    by (simp add: l2 c2)
  have w1: "base_weight ?K1 = 1"
    unfolding base_weight_def low
    by (simp add: technical_terms_def framework_terms_def cloud_terms_def ev)
  have w2: "base_weight ?k2 = 3 / 2"
    unfolding base_weight_def low
    by (simp add: technical_terms_def framework_terms_def cloud_terms_def ev)
  have h1: "?K1 \<in> set ?kws" and h1': "?k2 \<in> set ?kws" by simp_all
  have h2: "contains (lower ?K1) (U '' '')" by (simp add: low a1)
  have h3: "\<not> contains (U '' '' @ clean ml_resume @ U '' '') (U '' '' @ lower ?K1 @ U '' '')"
    by (simp add: low ml_resume_clean a2)
  have g2: "contains (lower ?k2) (U '' '')" by (simp add: low b1)
  have g3: "\<not> contains (U '' '' @ clean ml_resume @ U '' '') (U '' '' @ lower ?k2 @ U '' '')"
    by (simp add: low ml_resume_clean b2)
  have h4: "\<forall>k \<in> set ?kws.
           contains (lower k) (U '' '')
           \<and> \<not> contains (U '' '' @ clean ml_resume @ U '' '') (U '' '' @ lower k @ U '' '')
           \<longrightarrow> long_parts (lower k) \<noteq> []"
    by (simp add: low l1 l2)
  from multi_word_keyword_contribution [OF h1 h2 h3 h4, of "\<lambda>a b. 0"]
  obtain matches where
    run: "match_keywords (\<lambda>a b. 0) (clean ml_resume) (keyword_importance ?kws) [] = Inr matches"
    and m1: "map_of matches ?k1 = Some (9 / 10)"
    using p1 by (auto simp add: low ml_resume_clean w1)
  from multi_word_keyword_contribution [OF h1' g2 g3 h4, of "\<lambda>a b. 0"] run
  have m2: "map_of matches ?k2 = Some (21 / 20)"
    using p2 n2 by (auto simp add: low ml_resume_clean w2 s2)
  from run m1 m2 have "\<exists>matches.
         match_keywords (\<lambda>a b. 0) (clean ml_resume) (keyword_importance ?kws) [] = Inr matches
       \<and> map_of matches ?k1 = Some (9 / 10) \<and> map_of matches ?k2 = Some (21 / 20)"
    by blast
  with a1 a2 l1 b1 b2 l2 p1 p2 n2 show ?thesis
    by (simp add: low ml_resume_clean)
qed

subsection \<open>The semantic path\<close>

text \<open>
  Claim C4: when the scorer in use is not initialized, or the embedding and similarity
  computation raises, \<^verbatim>\<open>calculate_ats_score\<close> still returns a dictionary with the keys
  \<^verbatim>\<open>ats_score\<close>, \<^verbatim>\<open>format_analysis\<close> and \<^verbatim>\<open>content_analysis\<close>, whose \<^verbatim>\<open>ats_score\<close> is the
  share of the job description's words that occur in the resume, times 100, times 0.8
  (and 0 when the job description has no words).
\<close>

theorem degraded_mode_result:
  assumes "get_ats_scorer lib p = (scorer, p')"
    and "\<not> initialized scorer
         \<or> (\<exists>e. embedding_score lib scorer resume_text job_description = Inl e)"
  shows "\<exists>result. calculate_ats_score lib p resume_text job_description = (result, p')
     \<and> {''ats_score'', ''format_analysis'', ''content_analysis''} \<subseteq> set (dict_keys result)
     \<and> getitem result ''ats_score'' =
         Some (PFloat
           (let resume_words = set (split_ws (lower resume_text));
                job_words = set (split_ws (lower job_description))
            in if job_words = {} then 0
               else real (card (resume_words \<inter> job_words)) / real (card job_words)
                      * 100 * 0.8))"
proof -
  have "calculate_ats_score lib p resume_text job_description
          = (degraded_result lib resume_text job_description, p')"
    using assms by (simp add: calculate_ats_score_def analysis_body_degraded)
  then show ?thesis
    by (simp add: degraded_result_items)
qed

theorem degraded_mode_result_witness:
  "get_ats_scorer unavailable_library fresh_process
     = (\<lparr>model = None, initialized = False\<rparr>,
        \<lparr>ats_scorer = Some \<lparr>model = None, initialized = False\<rparr>, loader_calls = 1\<rparr>)
   \<and> (\<exists>result.
         calculate_ats_score unavailable_library fresh_process
             (U ''Python and SQL developer'') (U ''python sql aws'')
           = (result, \<lparr>ats_scorer = Some \<lparr>model = None, initialized = False\<rparr>,
                       loader_calls = 1\<rparr>)
         \<and> {''ats_score'', ''format_analysis'', ''content_analysis''} \<subseteq> set (dict_keys result)
         \<and> getitem result ''ats_score'' = Some (PFloat (160 / 3)))
   \<and> (\<exists>e. embedding_score broken_encoder_library
              (fst (get_ats_scorer broken_encoder_library fresh_process))
              (U ''Python and SQL developer'') (U ''python sql aws'') = Inl e)
   \<and> (\<exists>result.
         fst (calculate_ats_score broken_encoder_library fresh_process
               (U ''Python and SQL developer'') (U ''python sql aws'')) = result
         \<and> getitem result ''ats_score'' = Some (PFloat (160 / 3)))"
proof -
  let ?rt = "U ''Python and SQL developer''"
  let ?jd = "U ''python sql aws''"
  let ?s = "\<lparr>model = None, initialized = False\<rparr>"
  let ?p = "\<lparr>ats_scorer = Some ?s, loader_calls = 1\<rparr>"
  have words: "split_ws (lower ?rt) = [U ''python'', U ''and'', U ''sql'', U ''developer'']"
    "split_ws (lower ?jd) = [U ''python'', U ''sql'', U ''aws'']"
    by (simp_all add: ev)
  have score: "(let resume_words = set (split_ws (lower ?rt));
                    job_words = set (split_ws (lower ?jd))
                in if job_words = {} then 0
                   else real (card (resume_words \<inter> job_words)) / real (card job_words)
                          * 100 * 0.8) = (160 / 3 :: real)"
    unfolding words by (simp add: U_def)
  have g1: "get_ats_scorer unavailable_library fresh_process = (?s, ?p)"
    by (simp add: get_ats_scorer_def initialize_model_def unavailable_library_def
          fresh_process_def)
  have h1: "\<not> initialized ?s \<or> (\<exists>e. embedding_score unavailable_library ?s ?rt ?jd = Inl e)"
    by simp
  let ?m = "\<lparr>encode = (\<lambda>texts. Inl (LibraryError ''out of memory''))\<rparr>"
  let ?s2 = "\<lparr>model = Some ?m, initialized = True\<rparr>"
  let ?p2 = "\<lparr>ats_scorer = Some ?s2, loader_calls = 1\<rparr>"
  have g2: "get_ats_scorer broken_encoder_library fresh_process = (?s2, ?p2)"
    by (simp add: get_ats_scorer_def initialize_model_def broken_encoder_library_def
          fresh_process_def)
  have e2: "\<exists>e. embedding_score broken_encoder_library ?s2 ?rt ?jd = Inl e"
    by (simp add: embedding_score_def)
  then have h2: "\<not> initialized ?s2
      \<or> (\<exists>e. embedding_score broken_encoder_library ?s2 ?rt ?jd = Inl e)"
    by simp
  from degraded_mode_result [OF g1 h1] degraded_mode_result [OF g2 h2] g1 g2 e2
  show ?thesis
    unfolding score by auto
qed

text \<open>
  Claim C7: once the first initialization attempt of the process-wide scorer has failed,
  the call that made the attempt and every later call of \<^verbatim>\<open>calculate_ats_score\<close> take
  the Degraded path and leave the process as it is, so the loader is not called again;
  an access to the scorer calls the loader exactly when the global \<^verbatim>\<open>_ats_scorer\<close> is
  still \<^verbatim>\<open>None\<close>.
\<close>

theorem failed_initialization_is_permanent:
  assumes "ats_scorer p = None"
    and "get_sentence_transformer lib (loader_calls p) = Inl e"
    and "calculate_ats_score lib p resume_text job_description = (result, p1)"
  shows "result = degraded_result lib resume_text job_description
     \<and> loader_calls p1 = Suc (loader_calls p)
     \<and> calls lib p1 later = (map (\<lambda>(rt, jd). degraded_result lib rt jd) later, p1)
     \<and> (\<forall>q. loader_calls (snd (get_ats_scorer lib q))
              = (if ats_scorer q = None then Suc (loader_calls q) else loader_calls q))"
proof -
  let ?s = "\<lparr>model = None, initialized = False\<rparr>"
  let ?p1 = "p\<lparr>loader_calls := Suc (loader_calls p), ats_scorer := Some ?s\<rparr>"
  have g: "get_ats_scorer lib p = (?s, ?p1)"
    using assms(1,2) by (simp add: get_ats_scorer_def initialize_model_def)
  have "calculate_ats_score lib p resume_text job_description
          = (degraded_result lib resume_text job_description, ?p1)"
    by (simp add: calculate_ats_score_def g analysis_body_degraded)
  with assms(3) have r: "result = degraded_result lib resume_text job_description"
    and p1: "p1 = ?p1" by simp_all
  have "calls lib p1 later = (map (\<lambda>(rt, jd). degraded_result lib rt jd) later, p1)"
    by (rule calls_uninitialized [where s = ?s]) (simp_all add: p1)
  with r p1 show ?thesis
    by (simp add: get_ats_scorer_loader_calls)
qed

theorem failed_initialization_is_permanent_witness:
  "ats_scorer fresh_process = None
   \<and> get_sentence_transformer flaky_library (loader_calls fresh_process)
       = Inl (LibraryError ''model not found'')
   \<and> get_sentence_transformer flaky_library 1
       = Inr (Some \<lparr>encode = (\<lambda>texts. Inr (map (\<lambda>t. [1]) texts))\<rparr>)
   \<and> fst (calculate_ats_score flaky_library fresh_process (U ''python'') (U ''python sql''))
       = degraded_result flaky_library (U ''python'') (U ''python sql'')
   \<and> loader_calls (snd (calculate_ats_score flaky_library fresh_process (U ''python'')
        (U ''python sql''))) = 1
   \<and> calls flaky_library
        (snd (calculate_ats_score flaky_library fresh_process (U ''python'') (U ''python sql'')))
        [(U ''python'', U ''python sql''), (U ''java'', U ''java'')]
       = ([degraded_result flaky_library (U ''python'') (U ''python sql''),
           degraded_result flaky_library (U ''java'') (U ''java'')],
          snd (calculate_ats_score flaky_library fresh_process (U ''python'') (U ''python sql'')))"
proof -
  have h1: "ats_scorer fresh_process = None"
    by (simp add: fresh_process_def)
  have h2: "get_sentence_transformer flaky_library (loader_calls fresh_process)
              = Inl (LibraryError ''model not found'')"
    by (simp add: flaky_library_def fresh_process_def)
  have h3: "calculate_ats_score flaky_library fresh_process (U ''python'') (U ''python sql'')
      = (fst (calculate_ats_score flaky_library fresh_process (U ''python'') (U ''python sql'')),
         snd (calculate_ats_score flaky_library fresh_process (U ''python'') (U ''python sql'')))"
    by simp
  have later: "get_sentence_transformer flaky_library 1
       = Inr (Some \<lparr>encode = (\<lambda>texts. Inr (map (\<lambda>t. [1]) texts))\<rparr>)"
    by (simp add: flaky_library_def)
  from failed_initialization_is_permanent [OF h1 h2 h3,
      where later = "[(U ''python'', U ''python sql''), (U ''java'', U ''java'')]"] h1 h2 later
  show ?thesis
    by (simp add: fresh_process_def)
qed

text \<open>
  Claim C8: a second call of \<^verbatim>\<open>calculate_ats_score\<close> with the same texts, made in the
  state the first call left, returns the same result and leaves that state unchanged,
  whether the first call found the scorer or created it. (\<^verbatim>\<open>ats_score\<close> reads and writes
  no global: its model is a function of its arguments alone.)
\<close>

theorem calculate_ats_score_repeatable:
  "calculate_ats_score lib (snd (calculate_ats_score lib p resume_text job_description))
       resume_text job_description
     = calculate_ats_score lib p resume_text job_description"
  by (cases "ats_scorer p")
     (auto simp add: calculate_ats_score_def get_ats_scorer_def initialize_model_def
        split: prod.splits sum.splits)

subsection \<open>The insight generator\<close>

text \<open>
  Claim C9: whatever the seven helper names are bound to, and whatever the two texts are,
  \<^verbatim>\<open>identify_strengths\<close>, \<^verbatim>\<open>identify_weaknesses\<close> and \<^verbatim>\<open>suggest_improvements\<close> return a
  list and never raise; when the \<^verbatim>\<open>try\<close> block raises, the list is empty.
\<close>

theorem insight_generator_never_raises:
  "identify_strengths ns rt jd
     = Inr (case strengths_body ns rt jd of Inl e \<Rightarrow> [] | Inr strengths \<Rightarrow> strengths)
   \<and> identify_weaknesses ns rt jd
     = Inr (case weaknesses_body ns rt jd of Inl e \<Rightarrow> [] | Inr weaknesses \<Rightarrow> weaknesses)
   \<and> suggest_improvements ns rt jd
     = Inr (case improvements_body ns rt jd of
              Inl e \<Rightarrow> [] | Inr improvements \<Rightarrow> improvements)"
  by (simp add: identify_strengths_def identify_weaknesses_def suggest_improvements_def
      split: sum.splits)

text \<open>
  Claim C10: in the module as it is, the first statement of each \<^verbatim>\<open>try\<close> block raises
  \<^verbatim>\<open>NameError\<close> for \<^verbatim>\<open>extract_required_skills\<close>, so the three functions return the empty
  list for every pair of texts.
\<close>

theorem insight_generator_always_empty:
  "strengths_body module_namespace rt jd = Inl (NameError ''extract_required_skills'')
   \<and> weaknesses_body module_namespace rt jd = Inl (NameError ''extract_required_skills'')
   \<and> improvements_body module_namespace rt jd = Inl (NameError ''extract_required_skills'')
   \<and> identify_strengths module_namespace rt jd = Inr []
   \<and> identify_weaknesses module_namespace rt jd = Inr []
   \<and> suggest_improvements module_namespace rt jd = Inr []"
  by (simp add: identify_strengths_def identify_weaknesses_def suggest_improvements_def
      strengths_body_def weaknesses_body_def improvements_body_def module_namespace_def
      call_def)

end
